theory Spec2Isabelle
  imports Complex_Main "HOL-Library.Word"
begin

section \<open>Data model of the creation service\<close>

text \<open>
  The embedding follows \<^verbatim>\<open>safe_relay_service/relay/services/safe_creation_service.py\<close>.
  Addresses are Python strings, byte strings are lists of octets, Python's unbounded
  integers are \<^typ>\<open>int\<close>, and the float returned by the token value lookup is a
  \<^typ>\<open>real\<close> (only the constant \<^verbatim>\<open>1.0\<close> is ever computed by this service).
\<close>

type_synonym address = string
type_synonym bytes = "8 word list"

text \<open>The class name of an exception raised by a collaborator and not caught here.\<close>

type_synonym exn = string

definition NULL_ADDRESS :: address where
  "NULL_ADDRESS = ''0x0000000000000000000000000000000000000000''"

text \<open>
  \<^verbatim>\<open>InvalidPaymentToken\<close> is the one exception the service raises itself.
  \<^verbatim>\<open>DoesNotExist\<close> and \<^verbatim>\<open>MultipleObjectsReturned\<close> are what the
  object manager's \<^verbatim>\<open>get\<close> raises, and they belong to the model class that is asked:
  \<^verbatim>\<open>Token\<close> in the token lookup, \<^verbatim>\<open>SafeCreation2\<close> in the deployment. Every
  other exception of a collaborator is \<open>Raised\<close> with its name.
\<close>

datatype error =
    InvalidPaymentToken address
  | DoesNotExist
  | MultipleObjectsReturned
  | Raised exn

text \<open>\<^verbatim>\<open>class SafeInfo(NamedTuple)\<close>\<close>

record SafeInfo =
  info_address :: address
  info_nonce :: int
  info_threshold :: int
  info_owners :: "address list"
  info_master_copy :: address
  info_version :: string

text \<open>The gas station's answer: \<^verbatim>\<open>get_gas_prices()\<close> with its three tiers.\<close>

record gas_prices =
  slow :: int
  standard :: int
  fast :: int

text \<open>
  The rows of the tables the service touches. A foreign key to a wallet stub is stored as the
  stub's address. \<open>creation_payment_token\<close> and \<open>creation2_payment_token\<close> are
  nullable, and so is \<open>creation2_tx_hash\<close>, which no row has when it is created.
\<close>

record token =
  token_address :: address
  token_gas :: bool

record safe_contract =
  contract_address :: address
  contract_master_copy :: address

record safe_creation =
  creation_deployer :: address
  creation_safe :: address
  creation_master_copy :: address
  creation_funder :: address
  creation_owners :: "address list"
  creation_threshold :: int
  creation_payment :: int
  creation_tx_hash :: string
  creation_gas :: int
  creation_gas_price :: int
  creation_payment_token :: "address option"
  creation_value :: int
  creation_v :: int
  creation_r :: int
  creation_s :: int
  creation_data :: bytes
  creation_signed_tx :: bytes

record safe_creation2 =
  creation2_safe :: address
  creation2_master_copy :: address
  creation2_proxy_factory :: address
  creation2_salt_nonce :: int
  creation2_owners :: "address list"
  creation2_threshold :: int
  creation2_payment_token :: "address option"
  creation2_payment :: int
  creation2_payment_receiver :: address
  creation2_setup_data :: bytes
  creation2_gas_estimated :: int
  creation2_gas_price_estimated :: int
  creation2_tx_hash :: "bytes option"

text \<open>
  What the transaction builder hands back: the attributes that \<^verbatim>\<open>create_safe_tx\<close>
  and \<^verbatim>\<open>create2_safe_tx\<close> read from \<^verbatim>\<open>safe_creation_tx\<close>.
\<close>

record safe_creation_tx =
  sct_safe_address :: address
  sct_master_copy :: address
  sct_deployer_address :: address
  sct_funder :: address
  sct_payment :: int
  sct_tx_hash :: bytes
  sct_gas :: int
  sct_gas_price :: int
  sct_payment_token :: address
  sct_tx_pyethereum_value :: int
  sct_v :: int
  sct_r :: int
  sct_s :: int
  sct_tx_pyethereum_data :: bytes
  sct_tx_raw :: bytes

record safe_create2_tx =
  sc2t_safe_address :: address
  sc2t_master_copy_address :: address
  sc2t_proxy_factory_address :: address
  sc2t_payment_token :: address
  sc2t_payment :: int
  sc2t_payment_receiver :: address
  sc2t_safe_setup_data :: bytes
  sc2t_gas :: int
  sc2t_gas_price :: int

text \<open>
  Every call that leaves the process is logged, in order: the token table lookup, the token's
  value lookup, the gas station and the methods of \<^verbatim>\<open>safe_service\<close>. The log is how
  the model says "no lookup", "nothing submitted" and "five reads".
\<close>

datatype call =
    TokenGet address
  | GetEthValue address
  | GetGasPrices
  | BuildSafeCreationTx int "address list" int int address real int
  | BuildSafeCreate2Tx int "address list" int int address real int
  | DeployProxyContractWithNonce int bytes int int string
  | RetrieveNonce address
  | RetrieveThreshold address
  | RetrieveOwners address
  | RetrieveMasterCopyAddress address
  | RetrieveVersion address

text \<open>The four tables and the call log.\<close>

record world =
  tokens :: "token list"
  safe_contracts :: "safe_contract list"
  safe_creations :: "safe_creation list"
  safe_creation2s :: "safe_creation2 list"
  calls :: "call list"

text \<open>
  The collaborators are not part of this service: they are fields of the service object, taken
  here as functions. Each gets the log of the calls made so far, so that the chain and the
  oracle may answer the same question differently at different times; each either raises
  (\<open>Inl\<close> with the exception's name) or returns.
\<close>

record safe_service =
  build_safe_creation_tx ::
    "call list \<Rightarrow> int \<Rightarrow> address list \<Rightarrow> int \<Rightarrow> int \<Rightarrow> address \<Rightarrow> real \<Rightarrow> int
       \<Rightarrow> exn + safe_creation_tx"
  build_safe_create2_tx ::
    "call list \<Rightarrow> int \<Rightarrow> address list \<Rightarrow> int \<Rightarrow> int \<Rightarrow> address \<Rightarrow> real \<Rightarrow> int
       \<Rightarrow> exn + safe_create2_tx"
  deploy_proxy_contract_with_nonce ::
    "call list \<Rightarrow> int \<Rightarrow> bytes \<Rightarrow> int \<Rightarrow> int \<Rightarrow> string \<Rightarrow> exn + (bytes \<times> bytes)"
  retrieve_nonce :: "call list \<Rightarrow> address \<Rightarrow> exn + int"
  retrieve_threshold :: "call list \<Rightarrow> address \<Rightarrow> exn + int"
  retrieve_owners :: "call list \<Rightarrow> address \<Rightarrow> exn + address list"
  retrieve_master_copy_address :: "call list \<Rightarrow> address \<Rightarrow> exn + address"
  retrieve_version :: "call list \<Rightarrow> address \<Rightarrow> exn + string"

record gas_station =
  get_gas_prices :: "call list \<Rightarrow> exn + gas_prices"

text \<open>\<^verbatim>\<open>class SafeCreationService\<close>: the four attributes set by \<^verbatim>\<open>__init__\<close>.\<close>

record SafeCreationService =
  svc_safe_service :: safe_service
  svc_gas_station :: gas_station
  safe_funder_private_key :: string
  safe_fixed_creation_cost :: int

text \<open>
  The writes the service asks of the persistence layer, and the persistence layer itself.
  The table definitions are not part of this service, so what makes a write fail is a parameter:
  \<open>write_error\<close> says, for a state of the tables and a write, whether the write raises (and
  what). \<open>get_eth_value\<close> is the token row's method of that name; it may raise any
  exception, \<^verbatim>\<open>Token.DoesNotExist\<close> (here \<open>Inl DoesNotExist\<close>) included.
\<close>

datatype db_write =
    CreateSafeContract safe_contract
  | CreateSafeCreation safe_creation
  | CreateSafeCreation2 safe_creation2
  | SaveSafeCreation2 safe_creation2

record orm =
  write_error :: "world \<Rightarrow> db_write \<Rightarrow> exn option"
  get_eth_value :: "call list \<Rightarrow> token \<Rightarrow> error + real"

section \<open>Sequencing, the persistence layer and the collaborators\<close>

text \<open>A statement that may raise, followed by the rest of the function body.\<close>

definition bind :: "(world \<Rightarrow> (error + 'a) \<times> world) \<Rightarrow> ('a \<Rightarrow> world \<Rightarrow> (error + 'b) \<times> world)
    \<Rightarrow> world \<Rightarrow> (error + 'b) \<times> world" where
  "bind m f w = (case m w of (Inl e, w') \<Rightarrow> (Inl e, w') | (Inr x, w') \<Rightarrow> f x w')"

text \<open>Python's \<^verbatim>\<open>x or NULL_ADDRESS\<close> on an optional string: \<^verbatim>\<open>None\<close> and the empty string are falsy.\<close>

definition or_null :: "string option \<Rightarrow> address" where
  "or_null a = (case a of None \<Rightarrow> NULL_ADDRESS | Some s \<Rightarrow> if s = [] then NULL_ADDRESS else s)"

text \<open>Python's \<^verbatim>\<open>bytes.hex()\<close>.\<close>

definition hex_digit :: "nat \<Rightarrow> char" where
  "hex_digit n = ''0123456789abcdef'' ! (n mod 16)"

definition bytes_hex :: "bytes \<Rightarrow> string" where
  "bytes_hex bs = concat (map (\<lambda>b. [hex_digit (unat b div 16), hex_digit (unat b mod 16)]) bs)"

text \<open>
  The object manager's \<^verbatim>\<open>get\<close>: the one row that matches, \<^verbatim>\<open>DoesNotExist\<close> when
  none does, \<^verbatim>\<open>MultipleObjectsReturned\<close> when several do.
\<close>

definition objects_get :: "('r \<Rightarrow> bool) \<Rightarrow> 'r list \<Rightarrow> error + 'r" where
  "objects_get p rows =
     (case filter p rows of
        [] \<Rightarrow> Inl DoesNotExist
      | [r] \<Rightarrow> Inr r
      | _ \<Rightarrow> Inl MultipleObjectsReturned)"

text \<open>\<^verbatim>\<open>Token.objects.get(address=address, gas=True)\<close>, logged as a lookup.\<close>

definition token_objects_get :: "address \<Rightarrow> world \<Rightarrow> (error + token) \<times> world" where
  "token_objects_get a w =
     (objects_get (\<lambda>t. token_address t = a \<and> token_gas t) (tokens w),
      w\<lparr>calls := calls w @ [TokenGet a]\<rparr>)"

text \<open>
  \<^verbatim>\<open>token.get_eth_value()\<close>, logged as a lookup. Whatever it raises reaches the caller
  as it is.
\<close>

definition token_get_eth_value :: "orm \<Rightarrow> token \<Rightarrow> world \<Rightarrow> (error + real) \<times> world" where
  "token_get_eth_value db t w =
     (get_eth_value db (calls w) t, w\<lparr>calls := calls w @ [GetEthValue (token_address t)]\<rparr>)"

text \<open>\<^verbatim>\<open>SafeCreation2.objects.get(safe=safe_address)\<close>: a read of the tables.\<close>

definition safe_creation2_objects_get :: "address \<Rightarrow> world \<Rightarrow> (error + safe_creation2) \<times> world" where
  "safe_creation2_objects_get a w =
     (objects_get (\<lambda>r. creation2_safe r = a) (safe_creation2s w), w)"

text \<open>
  The effect of a write that does not raise. \<^verbatim>\<open>objects.create\<close> adds a row.
  \<^verbatim>\<open>save()\<close> on a row that was read from the table writes it over the stored row of
  the same wallet (the key it was read by), and adds it when there is none.
\<close>

fun apply_write :: "db_write \<Rightarrow> world \<Rightarrow> world" where
  "apply_write (CreateSafeContract r) w = w\<lparr>safe_contracts := safe_contracts w @ [r]\<rparr>"
| "apply_write (CreateSafeCreation r) w = w\<lparr>safe_creations := safe_creations w @ [r]\<rparr>"
| "apply_write (CreateSafeCreation2 r) w = w\<lparr>safe_creation2s := safe_creation2s w @ [r]\<rparr>"
| "apply_write (SaveSafeCreation2 r) w =
     (if \<exists>r' \<in> set (safe_creation2s w). creation2_safe r' = creation2_safe r
      then w\<lparr>safe_creation2s :=
             map (\<lambda>r'. if creation2_safe r' = creation2_safe r then r else r') (safe_creation2s w)\<rparr>
      else w\<lparr>safe_creation2s := safe_creation2s w @ [r]\<rparr>)"

definition perform_write :: "orm \<Rightarrow> db_write \<Rightarrow> world \<Rightarrow> (error + unit) \<times> world" where
  "perform_write db wr w =
     (case write_error db w wr of
        Some x \<Rightarrow> (Inl (Raised x), w)
      | None \<Rightarrow> (Inr (), apply_write wr w))"

text \<open>A call of a collaborator: logged, then answered from the log before it.\<close>

definition ask :: "call \<Rightarrow> (call list \<Rightarrow> exn + 'a) \<Rightarrow> world \<Rightarrow> (error + 'a) \<times> world" where
  "ask c answer w =
     ((case answer (calls w) of Inl x \<Rightarrow> Inl (Raised x) | Inr v \<Rightarrow> Inr v),
      w\<lparr>calls := calls w @ [c]\<rparr>)"

section \<open>The creation service\<close>

text \<open>
  \<^verbatim>\<open>_get_token_eth_value_or_raise\<close>. The \<^verbatim>\<open>try\<close> block holds both the
  table lookup and the call of \<^verbatim>\<open>get_eth_value\<close>, so the \<^verbatim>\<open>except\<close> clause
  turns a \<^verbatim>\<open>Token.DoesNotExist\<close> raised by either of them into
  \<^verbatim>\<open>InvalidPaymentToken(address)\<close>; every other exception passes through. The warning
  logged before the raise is not modelled.
\<close>

definition get_token_eth_value_or_raise :: "orm \<Rightarrow> string option \<Rightarrow> world \<Rightarrow> (error + real) \<times> world" where
  "get_token_eth_value_or_raise db address w =
     (let address = or_null address in
      if address = NULL_ADDRESS then (Inr 1, w)
      else
        (case bind (token_objects_get address) (token_get_eth_value db) w of
           (Inl DoesNotExist, w') \<Rightarrow> (Inl (InvalidPaymentToken address), w')
         | r \<Rightarrow> r))"

text \<open>
  \<^verbatim>\<open>create_safe_tx\<close>: token value, fast gas price, the builder, then the two
  \<^verbatim>\<open>objects.create\<close> calls, one after the other. The debug log line is not modelled.
\<close>

definition create_safe_tx :: "orm \<Rightarrow> SafeCreationService \<Rightarrow> int \<Rightarrow> address list \<Rightarrow> int
    \<Rightarrow> string option \<Rightarrow> world \<Rightarrow> (error + safe_creation) \<times> world" where
  "create_safe_tx db self s owners threshold payment_token =
     (let payment_token = or_null payment_token in
      bind (get_token_eth_value_or_raise db (Some payment_token)) (\<lambda>payment_token_eth_value.
      bind (ask GetGasPrices (get_gas_prices (svc_gas_station self))) (\<lambda>prices.
      let fast_gas_price = fast prices in
      bind (ask (BuildSafeCreationTx s owners threshold fast_gas_price payment_token
                   payment_token_eth_value (safe_fixed_creation_cost self))
              (\<lambda>h. build_safe_creation_tx (svc_safe_service self) h s owners threshold fast_gas_price
                   payment_token payment_token_eth_value (safe_fixed_creation_cost self)))
        (\<lambda>safe_creation_tx.
      let safe_contract = \<lparr>contract_address = sct_safe_address safe_creation_tx,
                            contract_master_copy = sct_master_copy safe_creation_tx\<rparr> in
      bind (perform_write db (CreateSafeContract safe_contract)) (\<lambda>_.
      let row = \<lparr>creation_deployer = sct_deployer_address safe_creation_tx,
                 creation_safe = contract_address safe_contract,
                 creation_master_copy = sct_master_copy safe_creation_tx,
                 creation_funder = sct_funder safe_creation_tx,
                 creation_owners = owners,
                 creation_threshold = threshold,
                 creation_payment = sct_payment safe_creation_tx,
                 creation_tx_hash = bytes_hex (sct_tx_hash safe_creation_tx),
                 creation_gas = sct_gas safe_creation_tx,
                 creation_gas_price = sct_gas_price safe_creation_tx,
                 creation_payment_token =
                   (if sct_payment_token safe_creation_tx = NULL_ADDRESS then None
                    else Some (sct_payment_token safe_creation_tx)),
                 creation_value = sct_tx_pyethereum_value safe_creation_tx,
                 creation_v = sct_v safe_creation_tx,
                 creation_r = sct_r safe_creation_tx,
                 creation_s = sct_s safe_creation_tx,
                 creation_data = sct_tx_pyethereum_data safe_creation_tx,
                 creation_signed_tx = sct_tx_raw safe_creation_tx\<rparr> in
      bind (perform_write db (CreateSafeCreation row)) (\<lambda>_ w. (Inr row, w)))))))"

text \<open>\<^verbatim>\<open>create2_safe_tx\<close>: the same steps with the salted builder and the salted record.\<close>

definition create2_safe_tx :: "orm \<Rightarrow> SafeCreationService \<Rightarrow> int \<Rightarrow> address list \<Rightarrow> int
    \<Rightarrow> string option \<Rightarrow> world \<Rightarrow> (error + safe_creation2) \<times> world" where
  "create2_safe_tx db self salt_nonce owners threshold payment_token =
     (let payment_token = or_null payment_token in
      bind (get_token_eth_value_or_raise db (Some payment_token)) (\<lambda>payment_token_eth_value.
      bind (ask GetGasPrices (get_gas_prices (svc_gas_station self))) (\<lambda>prices.
      let fast_gas_price = fast prices in
      bind (ask (BuildSafeCreate2Tx salt_nonce owners threshold fast_gas_price payment_token
                   payment_token_eth_value (safe_fixed_creation_cost self))
              (\<lambda>h. build_safe_create2_tx (svc_safe_service self) h salt_nonce owners threshold
                   fast_gas_price payment_token payment_token_eth_value
                   (safe_fixed_creation_cost self)))
        (\<lambda>safe_creation_tx.
      let safe_contract = \<lparr>contract_address = sc2t_safe_address safe_creation_tx,
                            contract_master_copy = sc2t_master_copy_address safe_creation_tx\<rparr> in
      bind (perform_write db (CreateSafeContract safe_contract)) (\<lambda>_.
      let row = \<lparr>creation2_safe = contract_address safe_contract,
                 creation2_master_copy = sc2t_master_copy_address safe_creation_tx,
                 creation2_proxy_factory = sc2t_proxy_factory_address safe_creation_tx,
                 creation2_salt_nonce = salt_nonce,
                 creation2_owners = owners,
                 creation2_threshold = threshold,
                 creation2_payment_token =
                   (if sc2t_payment_token safe_creation_tx = NULL_ADDRESS then None
                    else Some (sc2t_payment_token safe_creation_tx)),
                 creation2_payment = sc2t_payment safe_creation_tx,
                 creation2_payment_receiver = sc2t_payment_receiver safe_creation_tx,
                 creation2_setup_data = sc2t_safe_setup_data safe_creation_tx,
                 creation2_gas_estimated = sc2t_gas safe_creation_tx,
                 creation2_gas_price_estimated = sc2t_gas_price safe_creation_tx,
                 creation2_tx_hash = None\<rparr> in
      bind (perform_write db (CreateSafeCreation2 row)) (\<lambda>_ w. (Inr row, w)))))))"

text \<open>
  \<^verbatim>\<open>deploy_create2_safe_tx\<close>: read the record, submit the deployment, set the record's
  \<^verbatim>\<open>tx_hash\<close> and save it. \<^verbatim>\<open>HexBytes(setup_data.tobytes())\<close> is the same octets.
\<close>

definition deploy_create2_safe_tx :: "orm \<Rightarrow> SafeCreationService \<Rightarrow> address \<Rightarrow> world
    \<Rightarrow> (error + bytes) \<times> world" where
  "deploy_create2_safe_tx db self safe_address =
     bind (safe_creation2_objects_get safe_address) (\<lambda>safe_creation2.
     let setup_data = creation2_setup_data safe_creation2 in
     bind (ask (DeployProxyContractWithNonce (creation2_salt_nonce safe_creation2) setup_data
                  (creation2_gas_estimated safe_creation2)
                  (creation2_gas_price_estimated safe_creation2) (safe_funder_private_key self))
             (\<lambda>h. deploy_proxy_contract_with_nonce (svc_safe_service self) h
                  (creation2_salt_nonce safe_creation2) setup_data
                  (creation2_gas_estimated safe_creation2)
                  (creation2_gas_price_estimated safe_creation2) (safe_funder_private_key self)))
       (\<lambda>(tx_hash, _).
     let safe_creation2 = safe_creation2\<lparr>creation2_tx_hash := Some tx_hash\<rparr> in
     bind (perform_write db (SaveSafeCreation2 safe_creation2)) (\<lambda>_ w. (Inr tx_hash, w))))"

text \<open>\<^verbatim>\<open>retrieve_safe_info\<close>: five reads in the source's order, then the tuple.\<close>

definition retrieve_safe_info :: "SafeCreationService \<Rightarrow> address \<Rightarrow> world
    \<Rightarrow> (error + SafeInfo) \<times> world" where
  "retrieve_safe_info self address =
     bind (ask (RetrieveNonce address)
             (\<lambda>h. retrieve_nonce (svc_safe_service self) h address)) (\<lambda>nonce.
     bind (ask (RetrieveThreshold address)
             (\<lambda>h. retrieve_threshold (svc_safe_service self) h address)) (\<lambda>threshold.
     bind (ask (RetrieveOwners address)
             (\<lambda>h. retrieve_owners (svc_safe_service self) h address)) (\<lambda>owners.
     bind (ask (RetrieveMasterCopyAddress address)
             (\<lambda>h. retrieve_master_copy_address (svc_safe_service self) h address)) (\<lambda>master_copy.
     bind (ask (RetrieveVersion address)
             (\<lambda>h. retrieve_version (svc_safe_service self) h address)) (\<lambda>version w.
     (Inr \<lparr>info_address = address, info_nonce = nonce, info_threshold = threshold,
           info_owners = owners, info_master_copy = master_copy, info_version = version\<rparr>,
      w))))))"

text \<open>What is persisted: the tables, without the call log.\<close>

definition persisted :: "world \<Rightarrow> token list \<times> safe_contract list \<times> safe_creation list \<times> safe_creation2 list" where
  "persisted w = (tokens w, safe_contracts w, safe_creations w, safe_creation2s w)"

section \<open>Packed signatures\<close>

text \<open>
  Modelled from the spec: \<^verbatim>\<open>signatures_to_bytes\<close> is a method of the safe service of
  the gnosis library, which is not among the sources; only the test that calls it is
  (\<^verbatim>\<open>test_send_multisig_tx\<close>). Section 4.1 of the specification
  (\<^verbatim>\<open>packSignatures\<close>) gives its result: for each signer, in the order given by the
  caller, \<open>r\<close> in 32 bytes, then \<open>s\<close> in 32 bytes, then \<open>v\<close> in one byte. The
  fixed widths are the types here: \<open>r\<close> and \<open>s\<close> are 256-bit words and \<open>v\<close> is an
  octet. \<open>uint_bytes n x\<close> is \<open>x\<close> written in \<open>n\<close> bytes, most significant byte first.
\<close>

fun uint_bytes :: "nat \<Rightarrow> nat \<Rightarrow> bytes" where
  "uint_bytes 0 x = []"
| "uint_bytes (Suc n) x = uint_bytes n (x div 256) @ [of_nat (x mod 256)]"

text \<open>Modelled from the spec: the 65 bytes of one signer, \<open>r\<close>, \<open>s\<close>, \<open>v\<close>.\<close>

definition signature_to_bytes :: "8 word \<times> 256 word \<times> 256 word \<Rightarrow> bytes" where
  "signature_to_bytes = (\<lambda>(v, r, s). uint_bytes 32 (unat r) @ uint_bytes 32 (unat s) @ [v])"

text \<open>
  Modelled from the spec: \<^verbatim>\<open>signatures_to_bytes\<close>, the signers' bytes one after the other
  in the order of the list of \<open>(v, r, s)\<close> triples.
\<close>

definition signatures_to_bytes :: "(8 word \<times> 256 word \<times> 256 word) list \<Rightarrow> bytes" where
  "signatures_to_bytes signatures = concat (map signature_to_bytes signatures)"

text \<open>The number that a byte string stands for, most significant byte first.\<close>

definition bytes_uint :: "bytes \<Rightarrow> nat" where
  "bytes_uint bs = foldl (\<lambda>a b. 256 * a + unat b) 0 bs"

section \<open>Concrete scenarios\<close>

text \<open>Inputs on which the theorems below are run.\<close>

definition example_token :: address where
  "example_token = ''0x1111111111111111111111111111111111111111''"

definition quiet_orm :: orm where
  "quiet_orm = \<lparr>write_error = (\<lambda>_ _. None), get_eth_value = (\<lambda>_ _. Inr 2)\<rparr>"

definition empty_world :: world where
  "empty_world = \<lparr>tokens = [], safe_contracts = [], safe_creations = [], safe_creation2s = [],
      calls = []\<rparr>"

definition example_safe :: address where
  "example_safe = ''0x2222222222222222222222222222222222222222''"

definition example_master_copy :: address where
  "example_master_copy = ''0x3333333333333333333333333333333333333333''"

definition example_owner :: address where
  "example_owner = ''0x4444444444444444444444444444444444444444''"

definition example_creation_tx :: safe_creation_tx where
  "example_creation_tx =
     \<lparr>sct_safe_address = example_safe, sct_master_copy = example_master_copy,
      sct_deployer_address = example_owner, sct_funder = NULL_ADDRESS, sct_payment = 1000,
      sct_tx_hash = [0xAB], sct_gas = 21000, sct_gas_price = 5, sct_payment_token = NULL_ADDRESS,
      sct_tx_pyethereum_value = 0, sct_v = 27, sct_r = 1, sct_s = 2,
      sct_tx_pyethereum_data = [], sct_tx_raw = [1]\<rparr>"

definition example_create2_tx :: safe_create2_tx where
  "example_create2_tx =
     \<lparr>sc2t_safe_address = example_safe, sc2t_master_copy_address = example_master_copy,
      sc2t_proxy_factory_address = example_owner, sc2t_payment_token = NULL_ADDRESS,
      sc2t_payment = 1000, sc2t_payment_receiver = NULL_ADDRESS, sc2t_safe_setup_data = [7],
      sc2t_gas = 21000, sc2t_gas_price = 5\<rparr>"

text \<open>A chain that answers every call; the hash of a deployment is the number of calls before it.\<close>

definition example_safe_service :: safe_service where
  "example_safe_service =
     \<lparr>build_safe_creation_tx = (\<lambda>_ _ _ _ _ _ _ _. Inr example_creation_tx),
      build_safe_create2_tx = (\<lambda>_ _ _ _ _ _ _ _. Inr example_create2_tx),
      deploy_proxy_contract_with_nonce = (\<lambda>h _ _ _ _ _. Inr ([of_nat (length h)], [])),
      retrieve_nonce = (\<lambda>_ _. Inr 0),
      retrieve_threshold = (\<lambda>_ _. Inr 1),
      retrieve_owners = (\<lambda>_ _. Inr [example_owner]),
      retrieve_master_copy_address = (\<lambda>_ _. Inr example_master_copy),
      retrieve_version = (\<lambda>_ _. Inr ''1.0.0'')\<rparr>"

definition example_service :: SafeCreationService where
  "example_service =
     \<lparr>svc_safe_service = example_safe_service,
      svc_gas_station = \<lparr>get_gas_prices = (\<lambda>_. Inr \<lparr>slow = 1, standard = 2, fast = 3\<rparr>)\<rparr>,
      safe_funder_private_key = ''key'', safe_fixed_creation_cost = 0\<rparr>"

text \<open>A persistence layer whose creation-record writes raise.\<close>

definition record_write_fails :: orm where
  "record_write_fails =
     \<lparr>write_error = (\<lambda>_ wr. case wr of CreateSafeCreation _ \<Rightarrow> Some ''IntegrityError''
                               | CreateSafeCreation2 _ \<Rightarrow> Some ''IntegrityError''
                               | _ \<Rightarrow> None),
      get_eth_value = (\<lambda>_ _. Inr 2)\<rparr>"

definition token_row :: token where
  "token_row = \<lparr>token_address = example_token, token_gas = True\<rparr>"

definition token_world :: world where
  "token_world = empty_world\<lparr>tokens := [token_row]\<rparr>"

text \<open>A builder that hands back the payment token it was given.\<close>

definition echo_service :: SafeCreationService where
  "echo_service = example_service\<lparr>svc_safe_service := example_safe_service
     \<lparr>build_safe_creation_tx :=
        (\<lambda>_ _ _ _ _ t _ _. Inr (example_creation_tx\<lparr>sct_payment_token := t\<rparr>)),
      build_safe_create2_tx :=
        (\<lambda>_ _ _ _ _ t _ _. Inr (example_create2_tx\<lparr>sc2t_payment_token := t\<rparr>))\<rparr>\<rparr>"

definition example_creation2 :: safe_creation2 where
  "example_creation2 =
     \<lparr>creation2_safe = example_safe, creation2_master_copy = example_master_copy,
      creation2_proxy_factory = example_owner, creation2_salt_nonce = 5,
      creation2_owners = [example_owner], creation2_threshold = 1,
      creation2_payment_token = None, creation2_payment = 1000,
      creation2_payment_receiver = NULL_ADDRESS, creation2_setup_data = [7],
      creation2_gas_estimated = 21000, creation2_gas_price_estimated = 5,
      creation2_tx_hash = None\<rparr>"

definition salted_world :: world where
  "salted_world = empty_world\<lparr>safe_creation2s := [example_creation2]\<rparr>"

text \<open>A token whose value lookup raises \<^verbatim>\<open>Token.DoesNotExist\<close>.\<close>

definition value_lookup_fails :: orm where
  "value_lookup_fails = \<lparr>write_error = (\<lambda>_ _. None), get_eth_value = (\<lambda>_ _. Inl DoesNotExist)\<rparr>"

text \<open>A persistence layer whose wallet-stub writes raise.\<close>

definition stub_write_fails :: orm where
  "stub_write_fails =
     \<lparr>write_error = (\<lambda>_ wr. case wr of CreateSafeContract _ \<Rightarrow> Some ''OperationalError''
                               | _ \<Rightarrow> None),
      get_eth_value = (\<lambda>_ _. Inr 2)\<rparr>"

text \<open>A gas station that cannot be reached, and a builder that rejects its arguments.\<close>

definition gas_station_down :: SafeCreationService where
  "gas_station_down = example_service
     \<lparr>svc_gas_station := \<lparr>get_gas_prices = (\<lambda>_. Inl ''ConnectionError'')\<rparr>\<rparr>"

definition builder_fails :: SafeCreationService where
  "builder_fails = example_service\<lparr>svc_safe_service := example_safe_service
     \<lparr>build_safe_creation_tx := (\<lambda>_ _ _ _ _ _ _ _. Inl ''ValueError''),
      build_safe_create2_tx := (\<lambda>_ _ _ _ _ _ _ _. Inl ''ValueError'')\<rparr>\<rparr>"

text \<open>Chains on which one wallet read raises.\<close>

definition nonce_read_fails :: SafeCreationService where
  "nonce_read_fails = example_service\<lparr>svc_safe_service := example_safe_service
     \<lparr>retrieve_nonce := (\<lambda>_ _. Inl ''ConnectionError'')\<rparr>\<rparr>"

definition threshold_read_fails :: SafeCreationService where
  "threshold_read_fails = example_service\<lparr>svc_safe_service := example_safe_service
     \<lparr>retrieve_threshold := (\<lambda>_ _. Inl ''ConnectionError'')\<rparr>\<rparr>"

text \<open>A chain whose nonce is the number of calls made so far.\<close>

definition moving_chain :: SafeCreationService where
  "moving_chain = example_service\<lparr>svc_safe_service := example_safe_service
     \<lparr>retrieve_nonce := (\<lambda>h _. Inr (int (length h)))\<rparr>\<rparr>"

text \<open>The world after one round of wallet reads.\<close>

definition read_world :: world where
  "read_world = empty_world\<lparr>calls := [RetrieveNonce example_safe, RetrieveThreshold example_safe,
     RetrieveOwners example_safe, RetrieveMasterCopyAddress example_safe,
     RetrieveVersion example_safe]\<rparr>"

section \<open>Properties of the creation service\<close>

subsection \<open>Token lookup\<close>

lemma get_token_native:
  "or_null a = NULL_ADDRESS \<Longrightarrow> get_token_eth_value_or_raise db a w = (Inr 1, w)"
  by (simp add: get_token_eth_value_or_raise_def)

lemma get_token_no_row:
  assumes "or_null a \<noteq> NULL_ADDRESS"
    and "filter (\<lambda>k. token_address k = or_null a \<and> token_gas k) (tokens w) = []"
  shows "get_token_eth_value_or_raise db a w =
     (Inl (InvalidPaymentToken (or_null a)), w\<lparr>calls := calls w @ [TokenGet (or_null a)]\<rparr>)"
  using assms
  by (simp add: get_token_eth_value_or_raise_def Let_def bind_def token_objects_get_def
      objects_get_def)

lemma get_token_one_row:
  assumes "or_null a \<noteq> NULL_ADDRESS"
    and "filter (\<lambda>k. token_address k = or_null a \<and> token_gas k) (tokens w) = [k]"
  shows "get_token_eth_value_or_raise db a w =
     ((case get_eth_value db (calls w @ [TokenGet (or_null a)]) k of
         Inl DoesNotExist \<Rightarrow> Inl (InvalidPaymentToken (or_null a))
       | r \<Rightarrow> r),
      w\<lparr>calls := calls w @ [TokenGet (or_null a), GetEthValue (token_address k)]\<rparr>)"
  using assms
  by (simp add: get_token_eth_value_or_raise_def Let_def bind_def token_objects_get_def
      objects_get_def token_get_eth_value_def split: sum.splits error.splits)

lemma get_token_many_rows:
  assumes "or_null a \<noteq> NULL_ADDRESS"
    and "filter (\<lambda>k. token_address k = or_null a \<and> token_gas k) (tokens w) = k # k' # ks"
  shows "get_token_eth_value_or_raise db a w =
     (Inl MultipleObjectsReturned, w\<lparr>calls := calls w @ [TokenGet (or_null a)]\<rparr>)"
  using assms
  by (simp add: get_token_eth_value_or_raise_def Let_def bind_def token_objects_get_def
      objects_get_def)

text \<open>
  Claim C6, as amended. For the native-currency address (the zero address, and \<^verbatim>\<open>None\<close> or the
  empty string, which \<^verbatim>\<open>or NULL_ADDRESS\<close> turns into it) the lookup returns 1.0 and leaves
  the world as it was: no row is read and nothing is logged. For any other address the token rows
  with that address and \<^verbatim>\<open>gas=True\<close> decide. With no such row,
  \<^verbatim>\<open>InvalidPaymentToken\<close> carrying the address is raised after the table lookup alone.
  With exactly one, the row's \<^verbatim>\<open>get_eth_value\<close> is called: its value is returned, a
  \<^verbatim>\<open>Token.DoesNotExist\<close> it raises becomes \<^verbatim>\<open>InvalidPaymentToken\<close> carrying the
  address, and any other exception passes through. With several, the table lookup's
  \<^verbatim>\<open>MultipleObjectsReturned\<close> passes through. The last conjunct lists exactly the cases
  in which \<^verbatim>\<open>InvalidPaymentToken t\<close> is raised; an address with no row never yields a value.
\<close>

theorem get_token_eth_value_or_raise_spec:
  "(or_null a = NULL_ADDRESS \<longrightarrow> get_token_eth_value_or_raise db a w = (Inr 1, w)) \<and>
   (or_null a \<noteq> NULL_ADDRESS \<and>
    filter (\<lambda>k. token_address k = or_null a \<and> token_gas k) (tokens w) = [] \<longrightarrow>
      get_token_eth_value_or_raise db a w =
        (Inl (InvalidPaymentToken (or_null a)),
         w\<lparr>calls := calls w @ [TokenGet (or_null a)]\<rparr>)) \<and>
   (or_null a \<noteq> NULL_ADDRESS \<and>
    filter (\<lambda>k. token_address k = or_null a \<and> token_gas k) (tokens w) = [k] \<longrightarrow>
      get_token_eth_value_or_raise db a w =
        ((case get_eth_value db (calls w @ [TokenGet (or_null a)]) k of
            Inl DoesNotExist \<Rightarrow> Inl (InvalidPaymentToken (or_null a))
          | r \<Rightarrow> r),
         w\<lparr>calls := calls w @ [TokenGet (or_null a), GetEthValue (token_address k)]\<rparr>)) \<and>
   (or_null a \<noteq> NULL_ADDRESS \<and>
    filter (\<lambda>k. token_address k = or_null a \<and> token_gas k) (tokens w) = k # k' # ks \<longrightarrow>
      get_token_eth_value_or_raise db a w =
        (Inl MultipleObjectsReturned, w\<lparr>calls := calls w @ [TokenGet (or_null a)]\<rparr>)) \<and>
   (fst (get_token_eth_value_or_raise db a w) = Inl (InvalidPaymentToken t) \<longleftrightarrow>
      or_null a \<noteq> NULL_ADDRESS \<and>
      (t = or_null a \<and>
         filter (\<lambda>k. token_address k = or_null a \<and> token_gas k) (tokens w) = [] \<or>
       (\<exists>r. filter (\<lambda>k. token_address k = or_null a \<and> token_gas k) (tokens w) = [r] \<and>
          (t = or_null a \<and>
             get_eth_value db (calls w @ [TokenGet (or_null a)]) r = Inl DoesNotExist \<or>
           get_eth_value db (calls w @ [TokenGet (or_null a)]) r = Inl (InvalidPaymentToken t)))))"
proof (intro conjI impI)
  assume "or_null a = NULL_ADDRESS"
  then show "get_token_eth_value_or_raise db a w = (Inr 1, w)" by (rule get_token_native)
next
  assume "or_null a \<noteq> NULL_ADDRESS \<and>
    filter (\<lambda>k. token_address k = or_null a \<and> token_gas k) (tokens w) = []"
  then show "get_token_eth_value_or_raise db a w =
        (Inl (InvalidPaymentToken (or_null a)),
         w\<lparr>calls := calls w @ [TokenGet (or_null a)]\<rparr>)"
    using get_token_no_row[of a w db] by simp
next
  assume "or_null a \<noteq> NULL_ADDRESS \<and>
    filter (\<lambda>k. token_address k = or_null a \<and> token_gas k) (tokens w) = [k]"
  then show "get_token_eth_value_or_raise db a w =
        ((case get_eth_value db (calls w @ [TokenGet (or_null a)]) k of
            Inl DoesNotExist \<Rightarrow> Inl (InvalidPaymentToken (or_null a))
          | r \<Rightarrow> r),
         w\<lparr>calls := calls w @ [TokenGet (or_null a), GetEthValue (token_address k)]\<rparr>)"
    using get_token_one_row[of a w k db] by simp
next
  assume "or_null a \<noteq> NULL_ADDRESS \<and>
    filter (\<lambda>k. token_address k = or_null a \<and> token_gas k) (tokens w) = k # k' # ks"
  then show "get_token_eth_value_or_raise db a w =
        (Inl MultipleObjectsReturned, w\<lparr>calls := calls w @ [TokenGet (or_null a)]\<rparr>)"
    using get_token_many_rows[of a w k k' ks db] by simp
next
  show "fst (get_token_eth_value_or_raise db a w) = Inl (InvalidPaymentToken t) \<longleftrightarrow>
      or_null a \<noteq> NULL_ADDRESS \<and>
      (t = or_null a \<and>
         filter (\<lambda>k. token_address k = or_null a \<and> token_gas k) (tokens w) = [] \<or>
       (\<exists>r. filter (\<lambda>k. token_address k = or_null a \<and> token_gas k) (tokens w) = [r] \<and>
          (t = or_null a \<and>
             get_eth_value db (calls w @ [TokenGet (or_null a)]) r = Inl DoesNotExist \<or>
           get_eth_value db (calls w @ [TokenGet (or_null a)]) r = Inl (InvalidPaymentToken t))))"
  proof (cases "or_null a = NULL_ADDRESS")
    case True
    then show ?thesis using get_token_native[of a db w] by simp
  next
    case False
    show ?thesis
    proof (cases "filter (\<lambda>k. token_address k = or_null a \<and> token_gas k) (tokens w)")
      case Nil
      then show ?thesis using False get_token_no_row[of a w db] by auto
    next
      case (Cons r rs)
      note c = Cons
      show ?thesis
      proof (cases rs)
        case Nil
        then show ?thesis
          using False c get_token_one_row[of a w r db]
          by (auto split: sum.splits error.splits)
      next
        case (Cons r' rs')
        then show ?thesis
          using False c get_token_many_rows[of a w r r' rs' db] by auto
      qed
    qed
  qed
qed

theorem get_token_eth_value_or_raise_spec_witness:
  "get_token_eth_value_or_raise quiet_orm (Some NULL_ADDRESS) empty_world = (Inr 1, empty_world) \<and>
   get_token_eth_value_or_raise quiet_orm None empty_world = (Inr 1, empty_world) \<and>
   get_token_eth_value_or_raise quiet_orm (Some []) empty_world = (Inr 1, empty_world) \<and>
   get_token_eth_value_or_raise quiet_orm (Some example_token) empty_world
     = (Inl (InvalidPaymentToken example_token), empty_world\<lparr>calls := [TokenGet example_token]\<rparr>) \<and>
   get_token_eth_value_or_raise quiet_orm (Some example_token) token_world
     = (Inr 2, token_world\<lparr>calls := [TokenGet example_token, GetEthValue example_token]\<rparr>)"
proof -
  have n: "or_null (Some NULL_ADDRESS) = NULL_ADDRESS" "or_null None = NULL_ADDRESS"
    "or_null (Some []) = NULL_ADDRESS"
    "or_null (Some example_token) = example_token" "example_token \<noteq> NULL_ADDRESS"
    by (simp_all add: or_null_def NULL_ADDRESS_def example_token_def)
  have f: "filter (\<lambda>k. token_address k = example_token \<and> token_gas k) (tokens empty_world) = []"
    "filter (\<lambda>k. token_address k = example_token \<and> token_gas k) (tokens token_world)
       = [token_row]"
    "calls empty_world = []" "calls token_world = []" "token_address token_row = example_token"
    "get_eth_value quiet_orm h token_row = Inr 2" for h
    by (simp_all add: empty_world_def token_world_def token_row_def quiet_orm_def)
  show ?thesis
    using get_token_eth_value_or_raise_spec[of "Some NULL_ADDRESS" quiet_orm empty_world]
      get_token_eth_value_or_raise_spec[of None quiet_orm empty_world]
      get_token_eth_value_or_raise_spec[of "Some []" quiet_orm empty_world]
      get_token_eth_value_or_raise_spec[of "Some example_token" quiet_orm empty_world]
      get_token_eth_value_or_raise_spec[of "Some example_token" quiet_orm token_world token_row]
      n f
    by simp
qed

text \<open>
  The claim as stated fails: for a registered gas token whose value lookup raises
  \<^verbatim>\<open>Token.DoesNotExist\<close> the call raises \<^verbatim>\<open>InvalidPaymentToken\<close>, although the
  token is registered.
\<close>

theorem registered_token_counterexample:
  "tokens token_world = [token_row] \<and> token_address token_row = example_token \<and>
   token_gas token_row \<and> example_token \<noteq> NULL_ADDRESS \<and>
   get_token_eth_value_or_raise value_lookup_fails (Some example_token) token_world =
     (Inl (InvalidPaymentToken example_token),
      token_world\<lparr>calls := [TokenGet example_token, GetEthValue example_token]\<rparr>)"
  by (simp add: get_token_eth_value_or_raise_def Let_def bind_def token_objects_get_def
      objects_get_def token_get_eth_value_def token_world_def token_row_def value_lookup_fails_def
      or_null_def NULL_ADDRESS_def example_token_def empty_world_def)

subsection \<open>Failed creations\<close>

lemma get_token_persisted: "persisted (snd (get_token_eth_value_or_raise db a w)) = persisted w"
  by (auto simp: get_token_eth_value_or_raise_def Let_def bind_def token_objects_get_def
      token_get_eth_value_def persisted_def split: prod.splits sum.splits error.splits)

lemma get_token_persisted_eq:
  "get_token_eth_value_or_raise db a w = (r, wt) \<Longrightarrow> persisted wt = persisted w"
  using get_token_persisted[of db a w] by simp

lemma perform_write_Inl:
  "perform_write db wr w = (Inl e, w') \<Longrightarrow> w' = w \<and> (\<exists>x. e = Raised x \<and> write_error db w wr = Some x)"
  by (auto simp: perform_write_def split: option.splits)

lemma perform_write_Inr:
  "perform_write db wr w = (Inr u, w') \<Longrightarrow> w' = apply_write wr w \<and> write_error db w wr = None"
  by (auto simp: perform_write_def split: option.splits)

lemma create_safe_tx_failure:
  assumes "create_safe_tx db self s owners threshold payment_token w = (Inl e, w')"
  shows "tokens w' = tokens w \<and> safe_creations w' = safe_creations w \<and>
     safe_creation2s w' = safe_creation2s w \<and>
     (safe_contracts w' = safe_contracts w \<or> (\<exists>stub. safe_contracts w' = safe_contracts w @ [stub]))"
  using assms get_token_persisted[of db "Some (or_null payment_token)" w]
  apply (simp add: create_safe_tx_def Let_def bind_def split: prod.splits sum.splits)
  apply (auto simp: ask_def persisted_def dest!: perform_write_Inl perform_write_Inr)
  done

lemma create2_safe_tx_failure:
  assumes "create2_safe_tx db self salt_nonce owners threshold payment_token w = (Inl e, w')"
  shows "tokens w' = tokens w \<and> safe_creations w' = safe_creations w \<and>
     safe_creation2s w' = safe_creation2s w \<and>
     (safe_contracts w' = safe_contracts w \<or> (\<exists>stub. safe_contracts w' = safe_contracts w @ [stub]))"
  using assms get_token_persisted[of db "Some (or_null payment_token)" w]
  apply (simp add: create2_safe_tx_def Let_def bind_def split: prod.splits sum.splits)
  apply (auto simp: ask_def persisted_def dest!: perform_write_Inl perform_write_Inr)
  done

lemma creation_failure_tables:
  assumes "create_safe_tx db self s owners threshold payment_token w = (Inl e, w') \<or>
     create2_safe_tx db self s owners threshold payment_token w = (Inl e, w')"
  shows "tokens w' = tokens w \<and> safe_creations w' = safe_creations w \<and>
     safe_creation2s w' = safe_creation2s w \<and>
     (safe_contracts w' = safe_contracts w \<or> (\<exists>stub. safe_contracts w' = safe_contracts w @ [stub]))"
  using assms create_safe_tx_failure[of db self s owners threshold payment_token w e w']
    create2_safe_tx_failure[of db self s owners threshold payment_token w e w']
  by blast

lemma creation_token_failure:
  assumes "get_token_eth_value_or_raise db (Some (or_null payment_token)) w = (Inl e, wt)"
  shows "create_safe_tx db self s owners threshold payment_token w = (Inl e, wt)"
    and "create2_safe_tx db self s owners threshold payment_token w = (Inl e, wt)"
  using assms by (simp_all add: create_safe_tx_def create2_safe_tx_def Let_def bind_def)

lemma get_token_unresolvable:
  assumes "a \<noteq> NULL_ADDRESS" "a \<noteq> []"
    and "filter (\<lambda>k. token_address k = a \<and> token_gas k) (tokens w) = []"
  shows "get_token_eth_value_or_raise db (Some a) w =
     (Inl (InvalidPaymentToken a), w\<lparr>calls := calls w @ [TokenGet a]\<rparr>)"
  using assms
  by (simp add: get_token_eth_value_or_raise_def or_null_def Let_def bind_def
      token_objects_get_def objects_get_def)

lemma or_null_not_empty: "or_null a \<noteq> []"
  by (simp add: or_null_def NULL_ADDRESS_def split: option.splits)

lemma creation_unresolvable_token:
  assumes "or_null payment_token \<noteq> NULL_ADDRESS"
    and "filter (\<lambda>k. token_address k = or_null payment_token \<and> token_gas k) (tokens w) = []"
  shows "create_safe_tx db self s owners threshold payment_token w =
        (Inl (InvalidPaymentToken (or_null payment_token)),
         w\<lparr>calls := calls w @ [TokenGet (or_null payment_token)]\<rparr>)"
    and "create2_safe_tx db self s owners threshold payment_token w =
        (Inl (InvalidPaymentToken (or_null payment_token)),
         w\<lparr>calls := calls w @ [TokenGet (or_null payment_token)]\<rparr>)"
  using creation_token_failure[of db payment_token w "InvalidPaymentToken (or_null payment_token)"
      "w\<lparr>calls := calls w @ [TokenGet (or_null payment_token)]\<rparr>" self s owners threshold]
    get_token_unresolvable[of "or_null payment_token" w db] or_null_not_empty[of payment_token] assms
  by simp_all

text \<open>
  Claim C2, as amended. The conjuncts follow a call of \<^verbatim>\<open>create_safe_tx\<close> or
  \<^verbatim>\<open>create2_safe_tx\<close> step by step. A payment token that cannot be resolved raises
  \<^verbatim>\<open>InvalidPaymentToken\<close> with only the token lookup made. When the token lookup, the
  gas-price fetch, the builder or the write of the wallet stub raises, the call fails with that
  exception and the four tables are as they were. When the write of the creation record raises,
  the call fails with that exception and the stub written just before it stays, with no record:
  the tables are the old ones and the new stub, since the two writes are separate and nothing
  undoes the first. Whatever the step, a failing call adds no creation record and at most one
  stub.
\<close>

theorem creation_failure_state:
  "(or_null payment_token \<noteq> NULL_ADDRESS \<and>
    filter (\<lambda>k. token_address k = or_null payment_token \<and> token_gas k) (tokens w) = [] \<longrightarrow>
      create_safe_tx db self s owners threshold payment_token w =
        (Inl (InvalidPaymentToken (or_null payment_token)),
         w\<lparr>calls := calls w @ [TokenGet (or_null payment_token)]\<rparr>) \<and>
      create2_safe_tx db self s owners threshold payment_token w =
        (Inl (InvalidPaymentToken (or_null payment_token)),
         w\<lparr>calls := calls w @ [TokenGet (or_null payment_token)]\<rparr>)) \<and>
   (get_token_eth_value_or_raise db (Some (or_null payment_token)) w = (Inl e, wt) \<longrightarrow>
      create_safe_tx db self s owners threshold payment_token w = (Inl e, wt) \<and>
      create2_safe_tx db self s owners threshold payment_token w = (Inl e, wt) \<and>
      persisted wt = persisted w) \<and>
   (get_token_eth_value_or_raise db (Some (or_null payment_token)) w = (Inr v, wt) \<and>
    get_gas_prices (svc_gas_station self) (calls wt) = Inl x \<and>
    wg = wt\<lparr>calls := calls wt @ [GetGasPrices]\<rparr> \<longrightarrow>
      create_safe_tx db self s owners threshold payment_token w = (Inl (Raised x), wg) \<and>
      create2_safe_tx db self s owners threshold payment_token w = (Inl (Raised x), wg) \<and>
      persisted wg = persisted w) \<and>
   (get_token_eth_value_or_raise db (Some (or_null payment_token)) w = (Inr v, wt) \<and>
    get_gas_prices (svc_gas_station self) (calls wt) = Inr prices \<and>
    build_safe_creation_tx (svc_safe_service self) (calls wt @ [GetGasPrices]) s owners
        threshold (fast prices) (or_null payment_token) v (safe_fixed_creation_cost self) = Inl x \<and>
    wb = wt\<lparr>calls := calls wt @ [GetGasPrices,
        BuildSafeCreationTx s owners threshold (fast prices) (or_null payment_token) v
          (safe_fixed_creation_cost self)]\<rparr> \<longrightarrow>
      create_safe_tx db self s owners threshold payment_token w = (Inl (Raised x), wb) \<and>
      persisted wb = persisted w) \<and>
   (get_token_eth_value_or_raise db (Some (or_null payment_token)) w = (Inr v, wt) \<and>
    get_gas_prices (svc_gas_station self) (calls wt) = Inr prices \<and>
    build_safe_create2_tx (svc_safe_service self) (calls wt @ [GetGasPrices]) s owners
        threshold (fast prices) (or_null payment_token) v (safe_fixed_creation_cost self) = Inl x \<and>
    wb_s = wt\<lparr>calls := calls wt @ [GetGasPrices,
        BuildSafeCreate2Tx s owners threshold (fast prices) (or_null payment_token) v
          (safe_fixed_creation_cost self)]\<rparr> \<longrightarrow>
      create2_safe_tx db self s owners threshold payment_token w = (Inl (Raised x), wb_s) \<and>
      persisted wb_s = persisted w) \<and>
   (get_token_eth_value_or_raise db (Some (or_null payment_token)) w = (Inr v, wt) \<and>
    get_gas_prices (svc_gas_station self) (calls wt) = Inr prices \<and>
    build_safe_creation_tx (svc_safe_service self) (calls wt @ [GetGasPrices]) s owners
        threshold (fast prices) (or_null payment_token) v (safe_fixed_creation_cost self) = Inr tx \<and>
    wb = wt\<lparr>calls := calls wt @ [GetGasPrices,
        BuildSafeCreationTx s owners threshold (fast prices) (or_null payment_token) v
          (safe_fixed_creation_cost self)]\<rparr> \<and>
    stub = \<lparr>contract_address = sct_safe_address tx, contract_master_copy = sct_master_copy tx\<rparr> \<and>
    write_error db wb (CreateSafeContract stub) = Some x \<longrightarrow>
      create_safe_tx db self s owners threshold payment_token w = (Inl (Raised x), wb) \<and>
      persisted wb = persisted w) \<and>
   (get_token_eth_value_or_raise db (Some (or_null payment_token)) w = (Inr v, wt) \<and>
    get_gas_prices (svc_gas_station self) (calls wt) = Inr prices \<and>
    build_safe_creation_tx (svc_safe_service self) (calls wt @ [GetGasPrices]) s owners
        threshold (fast prices) (or_null payment_token) v (safe_fixed_creation_cost self) = Inr tx \<and>
    wb = wt\<lparr>calls := calls wt @ [GetGasPrices,
        BuildSafeCreationTx s owners threshold (fast prices) (or_null payment_token) v
          (safe_fixed_creation_cost self)]\<rparr> \<and>
    stub = \<lparr>contract_address = sct_safe_address tx, contract_master_copy = sct_master_copy tx\<rparr> \<and>
    write_error db wb (CreateSafeContract stub) = None \<and>
    write_error db (wb\<lparr>safe_contracts := safe_contracts wb @ [stub]\<rparr>)
      (CreateSafeCreation
            \<lparr>creation_deployer = sct_deployer_address tx,
             creation_safe = sct_safe_address tx,
             creation_master_copy = sct_master_copy tx,
             creation_funder = sct_funder tx,
             creation_owners = owners,
             creation_threshold = threshold,
             creation_payment = sct_payment tx,
             creation_tx_hash = bytes_hex (sct_tx_hash tx),
             creation_gas = sct_gas tx,
             creation_gas_price = sct_gas_price tx,
             creation_payment_token =
               (if sct_payment_token tx = NULL_ADDRESS then None else Some (sct_payment_token tx)),
             creation_value = sct_tx_pyethereum_value tx,
             creation_v = sct_v tx,
             creation_r = sct_r tx,
             creation_s = sct_s tx,
             creation_data = sct_tx_pyethereum_data tx,
             creation_signed_tx = sct_tx_raw tx\<rparr>) = Some x \<longrightarrow>
      create_safe_tx db self s owners threshold payment_token w =
        (Inl (Raised x), wb\<lparr>safe_contracts := safe_contracts wb @ [stub]\<rparr>) \<and>
      persisted (wb\<lparr>safe_contracts := safe_contracts wb @ [stub]\<rparr>) =
        (tokens w, safe_contracts w @ [stub], safe_creations w, safe_creation2s w)) \<and>
   (get_token_eth_value_or_raise db (Some (or_null payment_token)) w = (Inr v, wt) \<and>
    get_gas_prices (svc_gas_station self) (calls wt) = Inr prices \<and>
    build_safe_create2_tx (svc_safe_service self) (calls wt @ [GetGasPrices]) s owners
        threshold (fast prices) (or_null payment_token) v (safe_fixed_creation_cost self) = Inr tx_s \<and>
    wb_s = wt\<lparr>calls := calls wt @ [GetGasPrices,
        BuildSafeCreate2Tx s owners threshold (fast prices) (or_null payment_token) v
          (safe_fixed_creation_cost self)]\<rparr> \<and>
    stub_s = \<lparr>contract_address = sc2t_safe_address tx_s,
        contract_master_copy = sc2t_master_copy_address tx_s\<rparr> \<and>
    write_error db wb_s (CreateSafeContract stub_s) = Some x \<longrightarrow>
      create2_safe_tx db self s owners threshold payment_token w = (Inl (Raised x), wb_s) \<and>
      persisted wb_s = persisted w) \<and>
   (get_token_eth_value_or_raise db (Some (or_null payment_token)) w = (Inr v, wt) \<and>
    get_gas_prices (svc_gas_station self) (calls wt) = Inr prices \<and>
    build_safe_create2_tx (svc_safe_service self) (calls wt @ [GetGasPrices]) s owners
        threshold (fast prices) (or_null payment_token) v (safe_fixed_creation_cost self) = Inr tx_s \<and>
    wb_s = wt\<lparr>calls := calls wt @ [GetGasPrices,
        BuildSafeCreate2Tx s owners threshold (fast prices) (or_null payment_token) v
          (safe_fixed_creation_cost self)]\<rparr> \<and>
    stub_s = \<lparr>contract_address = sc2t_safe_address tx_s,
        contract_master_copy = sc2t_master_copy_address tx_s\<rparr> \<and>
    write_error db wb_s (CreateSafeContract stub_s) = None \<and>
    write_error db (wb_s\<lparr>safe_contracts := safe_contracts wb_s @ [stub_s]\<rparr>)
      (CreateSafeCreation2
            \<lparr>creation2_safe = sc2t_safe_address tx_s,
             creation2_master_copy = sc2t_master_copy_address tx_s,
             creation2_proxy_factory = sc2t_proxy_factory_address tx_s,
             creation2_salt_nonce = s,
             creation2_owners = owners,
             creation2_threshold = threshold,
             creation2_payment_token =
               (if sc2t_payment_token tx_s = NULL_ADDRESS then None
                else Some (sc2t_payment_token tx_s)),
             creation2_payment = sc2t_payment tx_s,
             creation2_payment_receiver = sc2t_payment_receiver tx_s,
             creation2_setup_data = sc2t_safe_setup_data tx_s,
             creation2_gas_estimated = sc2t_gas tx_s,
             creation2_gas_price_estimated = sc2t_gas_price tx_s,
             creation2_tx_hash = None\<rparr>) = Some x \<longrightarrow>
      create2_safe_tx db self s owners threshold payment_token w =
        (Inl (Raised x), wb_s\<lparr>safe_contracts := safe_contracts wb_s @ [stub_s]\<rparr>) \<and>
      persisted (wb_s\<lparr>safe_contracts := safe_contracts wb_s @ [stub_s]\<rparr>) =
        (tokens w, safe_contracts w @ [stub_s], safe_creations w, safe_creation2s w)) \<and>
   ((create_safe_tx db self s owners threshold payment_token w = (Inl e, w') \<or>
     create2_safe_tx db self s owners threshold payment_token w = (Inl e, w')) \<longrightarrow>
      tokens w' = tokens w \<and>
      safe_creations w' = safe_creations w \<and>
      safe_creation2s w' = safe_creation2s w \<and>
      (safe_contracts w' = safe_contracts w \<or> (\<exists>stub. safe_contracts w' = safe_contracts w @ [stub])))"
  apply (intro conjI impI; (elim conjE)?)
  subgoal by (rule creation_unresolvable_token(1))
  subgoal by (rule creation_unresolvable_token(2))
  subgoal by (simp add: create_safe_tx_def create2_safe_tx_def Let_def bind_def ask_def perform_write_def)
  subgoal by (simp add: create_safe_tx_def create2_safe_tx_def Let_def bind_def ask_def perform_write_def)
  subgoal by (frule get_token_persisted_eq) (simp add: persisted_def)
  subgoal by (simp add: create_safe_tx_def create2_safe_tx_def Let_def bind_def ask_def perform_write_def)
  subgoal by (simp add: create_safe_tx_def create2_safe_tx_def Let_def bind_def ask_def perform_write_def)
  subgoal by (frule get_token_persisted_eq) (simp add: persisted_def)
  subgoal by (simp add: create_safe_tx_def create2_safe_tx_def Let_def bind_def ask_def perform_write_def)
  subgoal by (frule get_token_persisted_eq) (simp add: persisted_def)
  subgoal by (simp add: create_safe_tx_def create2_safe_tx_def Let_def bind_def ask_def perform_write_def)
  subgoal by (frule get_token_persisted_eq) (simp add: persisted_def)
  subgoal by (simp add: create_safe_tx_def create2_safe_tx_def Let_def bind_def ask_def perform_write_def)
  subgoal by (frule get_token_persisted_eq) (simp add: persisted_def)
  subgoal by (simp add: create_safe_tx_def create2_safe_tx_def Let_def bind_def ask_def perform_write_def)
  subgoal by (frule get_token_persisted_eq) (simp add: persisted_def)
  subgoal by (simp add: create_safe_tx_def create2_safe_tx_def Let_def bind_def ask_def perform_write_def)
  subgoal by (frule get_token_persisted_eq) (simp add: persisted_def)
  subgoal by (simp add: create_safe_tx_def create2_safe_tx_def Let_def bind_def ask_def perform_write_def)
  subgoal by (frule get_token_persisted_eq) (simp add: persisted_def)
  subgoal using creation_failure_tables[of db self s owners threshold payment_token w e w'] by simp
  subgoal using creation_failure_tables[of db self s owners threshold payment_token w e w'] by simp
  subgoal using creation_failure_tables[of db self s owners threshold payment_token w e w'] by simp
  subgoal using creation_failure_tables[of db self s owners threshold payment_token w e w'] by simp
  done

theorem creation_failure_state_witness:
  "create_safe_tx quiet_orm example_service 1 [example_owner] 1 (Some example_token) empty_world
     = (Inl (InvalidPaymentToken example_token), empty_world\<lparr>calls := [TokenGet example_token]\<rparr>) \<and>
   create2_safe_tx quiet_orm example_service 1 [example_owner] 1 (Some example_token) empty_world
     = (Inl (InvalidPaymentToken example_token), empty_world\<lparr>calls := [TokenGet example_token]\<rparr>) \<and>
   create_safe_tx value_lookup_fails example_service 1 [example_owner] 1 (Some example_token) token_world
     = (Inl (InvalidPaymentToken example_token),
        token_world\<lparr>calls := [TokenGet example_token, GetEthValue example_token]\<rparr>) \<and>
   create2_safe_tx value_lookup_fails example_service 1 [example_owner] 1 (Some example_token) token_world
     = (Inl (InvalidPaymentToken example_token),
        token_world\<lparr>calls := [TokenGet example_token, GetEthValue example_token]\<rparr>) \<and>
   create_safe_tx quiet_orm gas_station_down 1 [example_owner] 1 None empty_world
     = (Inl (Raised ''ConnectionError''), empty_world\<lparr>calls := [GetGasPrices]\<rparr>) \<and>
   create2_safe_tx quiet_orm gas_station_down 1 [example_owner] 1 None empty_world
     = (Inl (Raised ''ConnectionError''), empty_world\<lparr>calls := [GetGasPrices]\<rparr>) \<and>
   create_safe_tx quiet_orm builder_fails 1 [example_owner] 1 None empty_world
     = (Inl (Raised ''ValueError''), empty_world\<lparr>calls := [GetGasPrices, BuildSafeCreationTx 1 [example_owner] 1 3 NULL_ADDRESS 1 0]\<rparr>) \<and>
   create2_safe_tx quiet_orm builder_fails 1 [example_owner] 1 None empty_world
     = (Inl (Raised ''ValueError''), empty_world\<lparr>calls := [GetGasPrices, BuildSafeCreate2Tx 1 [example_owner] 1 3 NULL_ADDRESS 1 0]\<rparr>) \<and>
   create_safe_tx stub_write_fails example_service 1 [example_owner] 1 None empty_world
     = (Inl (Raised ''OperationalError''), empty_world\<lparr>calls := [GetGasPrices, BuildSafeCreationTx 1 [example_owner] 1 3 NULL_ADDRESS 1 0]\<rparr>) \<and>
   create_safe_tx record_write_fails example_service 1 [example_owner] 1 None empty_world
     = (Inl (Raised ''IntegrityError''),
        empty_world\<lparr>calls := [GetGasPrices, BuildSafeCreationTx 1 [example_owner] 1 3 NULL_ADDRESS 1 0],
          safe_contracts := [\<lparr>contract_address = example_safe, contract_master_copy = example_master_copy\<rparr>]\<rparr>) \<and>
   create2_safe_tx stub_write_fails example_service 1 [example_owner] 1 None empty_world
     = (Inl (Raised ''OperationalError''), empty_world\<lparr>calls := [GetGasPrices, BuildSafeCreate2Tx 1 [example_owner] 1 3 NULL_ADDRESS 1 0]\<rparr>) \<and>
   create2_safe_tx record_write_fails example_service 1 [example_owner] 1 None empty_world
     = (Inl (Raised ''IntegrityError''),
        empty_world\<lparr>calls := [GetGasPrices, BuildSafeCreate2Tx 1 [example_owner] 1 3 NULL_ADDRESS 1 0],
          safe_contracts := [\<lparr>contract_address = example_safe, contract_master_copy = example_master_copy\<rparr>]\<rparr>)"
proof -
  have pU: "or_null (Some example_token) \<noteq> NULL_ADDRESS \<and>
      filter (\<lambda>k. token_address k = or_null (Some example_token) \<and> token_gas k) (tokens empty_world) = []"
    by (simp add: get_token_eth_value_or_raise_def Let_def bind_def token_objects_get_def objects_get_def
        token_get_eth_value_def or_null_def NULL_ADDRESS_def example_token_def token_world_def
        token_row_def empty_world_def quiet_orm_def value_lookup_fails_def stub_write_fails_def
        record_write_fails_def example_service_def example_safe_service_def gas_station_down_def
        builder_fails_def)
  have cU: "create_safe_tx quiet_orm example_service 1 [example_owner] 1 (Some example_token) empty_world =
        (Inl (InvalidPaymentToken (or_null (Some example_token))),
         empty_world\<lparr>calls := calls empty_world @ [TokenGet (or_null (Some example_token))]\<rparr>) \<and>
      create2_safe_tx quiet_orm example_service 1 [example_owner] 1 (Some example_token) empty_world =
        (Inl (InvalidPaymentToken (or_null (Some example_token))),
         empty_world\<lparr>calls := calls empty_world @ [TokenGet (or_null (Some example_token))]\<rparr>)"
    using creation_failure_state[where s = "1"
      and owners = "[example_owner]"
      and threshold = "1"
      and w = "empty_world"
      and db = "quiet_orm"
      and self = "example_service"
      and payment_token = "(Some example_token)"] pU
    by blast
  have rU: "create_safe_tx quiet_orm example_service 1 [example_owner] 1 (Some example_token) empty_world
     = (Inl (InvalidPaymentToken example_token), empty_world\<lparr>calls := [TokenGet example_token]\<rparr>) \<and>
    create2_safe_tx quiet_orm example_service 1 [example_owner] 1 (Some example_token) empty_world
     = (Inl (InvalidPaymentToken example_token), empty_world\<lparr>calls := [TokenGet example_token]\<rparr>)"
    using cU by (simp add: or_null_def NULL_ADDRESS_def example_token_def empty_world_def token_world_def persisted_def example_service_def
        builder_fails_def example_creation_tx_def example_create2_tx_def)
  have pT: "get_token_eth_value_or_raise value_lookup_fails (Some (or_null (Some example_token))) token_world = (Inl (InvalidPaymentToken example_token), (token_world\<lparr>calls := [TokenGet example_token, GetEthValue example_token]\<rparr>))"
    by (simp add: get_token_eth_value_or_raise_def Let_def bind_def token_objects_get_def objects_get_def
        token_get_eth_value_def or_null_def NULL_ADDRESS_def example_token_def token_world_def
        token_row_def empty_world_def quiet_orm_def value_lookup_fails_def stub_write_fails_def
        record_write_fails_def example_service_def example_safe_service_def gas_station_down_def
        builder_fails_def)
  have cT: "create_safe_tx value_lookup_fails example_service 1 [example_owner] 1 (Some example_token) token_world = (Inl (InvalidPaymentToken example_token), (token_world\<lparr>calls := [TokenGet example_token, GetEthValue example_token]\<rparr>)) \<and>
      create2_safe_tx value_lookup_fails example_service 1 [example_owner] 1 (Some example_token) token_world = (Inl (InvalidPaymentToken example_token), (token_world\<lparr>calls := [TokenGet example_token, GetEthValue example_token]\<rparr>)) \<and>
      persisted (token_world\<lparr>calls := [TokenGet example_token, GetEthValue example_token]\<rparr>) = persisted token_world"
    using creation_failure_state[where s = "1"
      and owners = "[example_owner]"
      and threshold = "1"
      and w = "token_world"
      and db = "value_lookup_fails"
      and self = "example_service"
      and payment_token = "(Some example_token)"
      and e = "(InvalidPaymentToken example_token)"
      and wt = "(token_world\<lparr>calls := [TokenGet example_token, GetEthValue example_token]\<rparr>)"] pT
    by blast
  have rT: "create_safe_tx value_lookup_fails example_service 1 [example_owner] 1 (Some example_token) token_world
     = (Inl (InvalidPaymentToken example_token),
        token_world\<lparr>calls := [TokenGet example_token, GetEthValue example_token]\<rparr>) \<and>
    create2_safe_tx value_lookup_fails example_service 1 [example_owner] 1 (Some example_token) token_world
     = (Inl (InvalidPaymentToken example_token),
        token_world\<lparr>calls := [TokenGet example_token, GetEthValue example_token]\<rparr>)"
    using cT by (simp add: or_null_def NULL_ADDRESS_def example_token_def empty_world_def token_world_def persisted_def example_service_def
        builder_fails_def example_creation_tx_def example_create2_tx_def)
  have pG: "get_token_eth_value_or_raise quiet_orm (Some (or_null None)) empty_world = (Inr 1, empty_world) \<and>
      get_gas_prices (svc_gas_station gas_station_down) (calls empty_world) = Inl ''ConnectionError'' \<and>
      (empty_world\<lparr>calls := calls empty_world @ [GetGasPrices]\<rparr>) = empty_world\<lparr>calls := calls empty_world @ [GetGasPrices]\<rparr>"
    by (simp add: get_token_eth_value_or_raise_def Let_def bind_def token_objects_get_def objects_get_def
        token_get_eth_value_def or_null_def NULL_ADDRESS_def example_token_def token_world_def
        token_row_def empty_world_def quiet_orm_def value_lookup_fails_def stub_write_fails_def
        record_write_fails_def example_service_def example_safe_service_def gas_station_down_def
        builder_fails_def)
  have cG: "create_safe_tx quiet_orm gas_station_down 1 [example_owner] 1 None empty_world = (Inl (Raised ''ConnectionError''), (empty_world\<lparr>calls := calls empty_world @ [GetGasPrices]\<rparr>)) \<and>
      create2_safe_tx quiet_orm gas_station_down 1 [example_owner] 1 None empty_world = (Inl (Raised ''ConnectionError''), (empty_world\<lparr>calls := calls empty_world @ [GetGasPrices]\<rparr>)) \<and>
      persisted (empty_world\<lparr>calls := calls empty_world @ [GetGasPrices]\<rparr>) = persisted empty_world"
    using creation_failure_state[where s = "1"
      and owners = "[example_owner]"
      and threshold = "1"
      and w = "empty_world"
      and db = "quiet_orm"
      and self = "gas_station_down"
      and payment_token = "None"
      and v = "1"
      and wt = "empty_world"
      and x = "''ConnectionError''"
      and wg = "(empty_world\<lparr>calls := calls empty_world @ [GetGasPrices]\<rparr>)"] pG
    by blast
  have rG: "create_safe_tx quiet_orm gas_station_down 1 [example_owner] 1 None empty_world
     = (Inl (Raised ''ConnectionError''), empty_world\<lparr>calls := [GetGasPrices]\<rparr>) \<and>
    create2_safe_tx quiet_orm gas_station_down 1 [example_owner] 1 None empty_world
     = (Inl (Raised ''ConnectionError''), empty_world\<lparr>calls := [GetGasPrices]\<rparr>)"
    using cG by (simp add: or_null_def NULL_ADDRESS_def example_token_def empty_world_def token_world_def persisted_def example_service_def
        builder_fails_def example_creation_tx_def example_create2_tx_def)
  have pB1: "get_token_eth_value_or_raise quiet_orm (Some (or_null None)) empty_world = (Inr 1, empty_world) \<and>
      get_gas_prices (svc_gas_station builder_fails) (calls empty_world) = Inr \<lparr>slow = 1, standard = 2, fast = 3\<rparr> \<and>
      build_safe_creation_tx (svc_safe_service builder_fails) (calls empty_world @ [GetGasPrices]) 1 [example_owner]
          1 (fast \<lparr>slow = 1, standard = 2, fast = 3\<rparr>) (or_null None) 1 (safe_fixed_creation_cost builder_fails) = Inl ''ValueError'' \<and>
      (empty_world\<lparr>calls := calls empty_world @ [GetGasPrices,
          BuildSafeCreationTx 1 [example_owner] 1 (fast \<lparr>slow = 1, standard = 2, fast = 3\<rparr>) (or_null None) 1
            (safe_fixed_creation_cost builder_fails)]\<rparr>) = empty_world\<lparr>calls := calls empty_world @ [GetGasPrices,
          BuildSafeCreationTx 1 [example_owner] 1 (fast \<lparr>slow = 1, standard = 2, fast = 3\<rparr>) (or_null None) 1
            (safe_fixed_creation_cost builder_fails)]\<rparr>"
    by (simp add: get_token_eth_value_or_raise_def Let_def bind_def token_objects_get_def objects_get_def
        token_get_eth_value_def or_null_def NULL_ADDRESS_def example_token_def token_world_def
        token_row_def empty_world_def quiet_orm_def value_lookup_fails_def stub_write_fails_def
        record_write_fails_def example_service_def example_safe_service_def gas_station_down_def
        builder_fails_def)
  have cB1: "create_safe_tx quiet_orm builder_fails 1 [example_owner] 1 None empty_world = (Inl (Raised ''ValueError''), (empty_world\<lparr>calls := calls empty_world @ [GetGasPrices,
        BuildSafeCreationTx 1 [example_owner] 1 (fast \<lparr>slow = 1, standard = 2, fast = 3\<rparr>) (or_null None) 1
          (safe_fixed_creation_cost builder_fails)]\<rparr>)) \<and>
      persisted (empty_world\<lparr>calls := calls empty_world @ [GetGasPrices,
        BuildSafeCreationTx 1 [example_owner] 1 (fast \<lparr>slow = 1, standard = 2, fast = 3\<rparr>) (or_null None) 1
          (safe_fixed_creation_cost builder_fails)]\<rparr>) = persisted empty_world"
    using creation_failure_state[where s = "1"
      and owners = "[example_owner]"
      and threshold = "1"
      and w = "empty_world"
      and db = "quiet_orm"
      and self = "builder_fails"
      and payment_token = "None"
      and v = "1"
      and wt = "empty_world"
      and x = "''ValueError''"
      and prices = "\<lparr>slow = 1, standard = 2, fast = 3\<rparr>"
      and wb = "(empty_world\<lparr>calls := calls empty_world @ [GetGasPrices,
        BuildSafeCreationTx 1 [example_owner] 1 (fast \<lparr>slow = 1, standard = 2, fast = 3\<rparr>) (or_null None) 1
          (safe_fixed_creation_cost builder_fails)]\<rparr>)"] pB1
    by blast
  have rB1: "create_safe_tx quiet_orm builder_fails 1 [example_owner] 1 None empty_world
     = (Inl (Raised ''ValueError''), empty_world\<lparr>calls := [GetGasPrices, BuildSafeCreationTx 1 [example_owner] 1 3 NULL_ADDRESS 1 0]\<rparr>)"
    using cB1 by (simp add: or_null_def NULL_ADDRESS_def example_token_def empty_world_def token_world_def persisted_def example_service_def
        builder_fails_def example_creation_tx_def example_create2_tx_def)
  have pB2: "get_token_eth_value_or_raise quiet_orm (Some (or_null None)) empty_world = (Inr 1, empty_world) \<and>
      get_gas_prices (svc_gas_station builder_fails) (calls empty_world) = Inr \<lparr>slow = 1, standard = 2, fast = 3\<rparr> \<and>
      build_safe_create2_tx (svc_safe_service builder_fails) (calls empty_world @ [GetGasPrices]) 1 [example_owner]
          1 (fast \<lparr>slow = 1, standard = 2, fast = 3\<rparr>) (or_null None) 1 (safe_fixed_creation_cost builder_fails) = Inl ''ValueError'' \<and>
      (empty_world\<lparr>calls := calls empty_world @ [GetGasPrices,
          BuildSafeCreate2Tx 1 [example_owner] 1 (fast \<lparr>slow = 1, standard = 2, fast = 3\<rparr>) (or_null None) 1
            (safe_fixed_creation_cost builder_fails)]\<rparr>) = empty_world\<lparr>calls := calls empty_world @ [GetGasPrices,
          BuildSafeCreate2Tx 1 [example_owner] 1 (fast \<lparr>slow = 1, standard = 2, fast = 3\<rparr>) (or_null None) 1
            (safe_fixed_creation_cost builder_fails)]\<rparr>"
    by (simp add: get_token_eth_value_or_raise_def Let_def bind_def token_objects_get_def objects_get_def
        token_get_eth_value_def or_null_def NULL_ADDRESS_def example_token_def token_world_def
        token_row_def empty_world_def quiet_orm_def value_lookup_fails_def stub_write_fails_def
        record_write_fails_def example_service_def example_safe_service_def gas_station_down_def
        builder_fails_def)
  have cB2: "create2_safe_tx quiet_orm builder_fails 1 [example_owner] 1 None empty_world = (Inl (Raised ''ValueError''), (empty_world\<lparr>calls := calls empty_world @ [GetGasPrices,
        BuildSafeCreate2Tx 1 [example_owner] 1 (fast \<lparr>slow = 1, standard = 2, fast = 3\<rparr>) (or_null None) 1
          (safe_fixed_creation_cost builder_fails)]\<rparr>)) \<and>
      persisted (empty_world\<lparr>calls := calls empty_world @ [GetGasPrices,
        BuildSafeCreate2Tx 1 [example_owner] 1 (fast \<lparr>slow = 1, standard = 2, fast = 3\<rparr>) (or_null None) 1
          (safe_fixed_creation_cost builder_fails)]\<rparr>) = persisted empty_world"
    using creation_failure_state[where s = "1"
      and owners = "[example_owner]"
      and threshold = "1"
      and w = "empty_world"
      and db = "quiet_orm"
      and self = "builder_fails"
      and payment_token = "None"
      and v = "1"
      and wt = "empty_world"
      and x = "''ValueError''"
      and prices = "\<lparr>slow = 1, standard = 2, fast = 3\<rparr>"
      and wb_s = "(empty_world\<lparr>calls := calls empty_world @ [GetGasPrices,
        BuildSafeCreate2Tx 1 [example_owner] 1 (fast \<lparr>slow = 1, standard = 2, fast = 3\<rparr>) (or_null None) 1
          (safe_fixed_creation_cost builder_fails)]\<rparr>)"] pB2
    by blast
  have rB2: "create2_safe_tx quiet_orm builder_fails 1 [example_owner] 1 None empty_world
     = (Inl (Raised ''ValueError''), empty_world\<lparr>calls := [GetGasPrices, BuildSafeCreate2Tx 1 [example_owner] 1 3 NULL_ADDRESS 1 0]\<rparr>)"
    using cB2 by (simp add: or_null_def NULL_ADDRESS_def example_token_def empty_world_def token_world_def persisted_def example_service_def
        builder_fails_def example_creation_tx_def example_create2_tx_def)
  have pS1: "get_token_eth_value_or_raise stub_write_fails (Some (or_null None)) empty_world = (Inr 1, empty_world) \<and>
      get_gas_prices (svc_gas_station example_service) (calls empty_world) = Inr \<lparr>slow = 1, standard = 2, fast = 3\<rparr> \<and>
      build_safe_creation_tx (svc_safe_service example_service) (calls empty_world @ [GetGasPrices]) 1 [example_owner]
          1 (fast \<lparr>slow = 1, standard = 2, fast = 3\<rparr>) (or_null None) 1 (safe_fixed_creation_cost example_service) = Inr example_creation_tx \<and>
      (empty_world\<lparr>calls := calls empty_world @ [GetGasPrices,
          BuildSafeCreationTx 1 [example_owner] 1 (fast \<lparr>slow = 1, standard = 2, fast = 3\<rparr>) (or_null None) 1
            (safe_fixed_creation_cost example_service)]\<rparr>) = empty_world\<lparr>calls := calls empty_world @ [GetGasPrices,
          BuildSafeCreationTx 1 [example_owner] 1 (fast \<lparr>slow = 1, standard = 2, fast = 3\<rparr>) (or_null None) 1
            (safe_fixed_creation_cost example_service)]\<rparr> \<and>
      \<lparr>contract_address = sct_safe_address example_creation_tx, contract_master_copy = sct_master_copy example_creation_tx\<rparr> = \<lparr>contract_address = sct_safe_address example_creation_tx, contract_master_copy = sct_master_copy example_creation_tx\<rparr> \<and>
      write_error stub_write_fails (empty_world\<lparr>calls := calls empty_world @ [GetGasPrices,
          BuildSafeCreationTx 1 [example_owner] 1 (fast \<lparr>slow = 1, standard = 2, fast = 3\<rparr>) (or_null None) 1
            (safe_fixed_creation_cost example_service)]\<rparr>) (CreateSafeContract \<lparr>contract_address = sct_safe_address example_creation_tx, contract_master_copy = sct_master_copy example_creation_tx\<rparr>) = Some ''OperationalError''"
    by (simp add: get_token_eth_value_or_raise_def Let_def bind_def token_objects_get_def objects_get_def
        token_get_eth_value_def or_null_def NULL_ADDRESS_def example_token_def token_world_def
        token_row_def empty_world_def quiet_orm_def value_lookup_fails_def stub_write_fails_def
        record_write_fails_def example_service_def example_safe_service_def gas_station_down_def
        builder_fails_def)
  have cS1: "create_safe_tx stub_write_fails example_service 1 [example_owner] 1 None empty_world = (Inl (Raised ''OperationalError''), (empty_world\<lparr>calls := calls empty_world @ [GetGasPrices,
        BuildSafeCreationTx 1 [example_owner] 1 (fast \<lparr>slow = 1, standard = 2, fast = 3\<rparr>) (or_null None) 1
          (safe_fixed_creation_cost example_service)]\<rparr>)) \<and>
      persisted (empty_world\<lparr>calls := calls empty_world @ [GetGasPrices,
        BuildSafeCreationTx 1 [example_owner] 1 (fast \<lparr>slow = 1, standard = 2, fast = 3\<rparr>) (or_null None) 1
          (safe_fixed_creation_cost example_service)]\<rparr>) = persisted empty_world"
    using creation_failure_state[where s = "1"
      and owners = "[example_owner]"
      and threshold = "1"
      and w = "empty_world"
      and db = "stub_write_fails"
      and self = "example_service"
      and payment_token = "None"
      and v = "1"
      and wt = "empty_world"
      and x = "''OperationalError''"
      and prices = "\<lparr>slow = 1, standard = 2, fast = 3\<rparr>"
      and tx = "example_creation_tx"
      and wb = "(empty_world\<lparr>calls := calls empty_world @ [GetGasPrices,
        BuildSafeCreationTx 1 [example_owner] 1 (fast \<lparr>slow = 1, standard = 2, fast = 3\<rparr>) (or_null None) 1
          (safe_fixed_creation_cost example_service)]\<rparr>)"
      and stub = "\<lparr>contract_address = sct_safe_address example_creation_tx, contract_master_copy = sct_master_copy example_creation_tx\<rparr>"] pS1
    by blast
  have rS1: "create_safe_tx stub_write_fails example_service 1 [example_owner] 1 None empty_world
     = (Inl (Raised ''OperationalError''), empty_world\<lparr>calls := [GetGasPrices, BuildSafeCreationTx 1 [example_owner] 1 3 NULL_ADDRESS 1 0]\<rparr>)"
    using cS1 by (simp add: or_null_def NULL_ADDRESS_def example_token_def empty_world_def token_world_def persisted_def example_service_def
        builder_fails_def example_creation_tx_def example_create2_tx_def)
  have pR1: "get_token_eth_value_or_raise record_write_fails (Some (or_null None)) empty_world = (Inr 1, empty_world) \<and>
      get_gas_prices (svc_gas_station example_service) (calls empty_world) = Inr \<lparr>slow = 1, standard = 2, fast = 3\<rparr> \<and>
      build_safe_creation_tx (svc_safe_service example_service) (calls empty_world @ [GetGasPrices]) 1 [example_owner]
          1 (fast \<lparr>slow = 1, standard = 2, fast = 3\<rparr>) (or_null None) 1 (safe_fixed_creation_cost example_service) = Inr example_creation_tx \<and>
      (empty_world\<lparr>calls := calls empty_world @ [GetGasPrices,
          BuildSafeCreationTx 1 [example_owner] 1 (fast \<lparr>slow = 1, standard = 2, fast = 3\<rparr>) (or_null None) 1
            (safe_fixed_creation_cost example_service)]\<rparr>) = empty_world\<lparr>calls := calls empty_world @ [GetGasPrices,
          BuildSafeCreationTx 1 [example_owner] 1 (fast \<lparr>slow = 1, standard = 2, fast = 3\<rparr>) (or_null None) 1
            (safe_fixed_creation_cost example_service)]\<rparr> \<and>
      \<lparr>contract_address = sct_safe_address example_creation_tx, contract_master_copy = sct_master_copy example_creation_tx\<rparr> = \<lparr>contract_address = sct_safe_address example_creation_tx, contract_master_copy = sct_master_copy example_creation_tx\<rparr> \<and>
      write_error record_write_fails (empty_world\<lparr>calls := calls empty_world @ [GetGasPrices,
          BuildSafeCreationTx 1 [example_owner] 1 (fast \<lparr>slow = 1, standard = 2, fast = 3\<rparr>) (or_null None) 1
            (safe_fixed_creation_cost example_service)]\<rparr>) (CreateSafeContract \<lparr>contract_address = sct_safe_address example_creation_tx, contract_master_copy = sct_master_copy example_creation_tx\<rparr>) = None \<and>
      write_error record_write_fails ((empty_world\<lparr>calls := calls empty_world @ [GetGasPrices,
          BuildSafeCreationTx 1 [example_owner] 1 (fast \<lparr>slow = 1, standard = 2, fast = 3\<rparr>) (or_null None) 1
            (safe_fixed_creation_cost example_service)]\<rparr>)\<lparr>safe_contracts := safe_contracts (empty_world\<lparr>calls := calls empty_world @ [GetGasPrices,
          BuildSafeCreationTx 1 [example_owner] 1 (fast \<lparr>slow = 1, standard = 2, fast = 3\<rparr>) (or_null None) 1
            (safe_fixed_creation_cost example_service)]\<rparr>) @ [\<lparr>contract_address = sct_safe_address example_creation_tx, contract_master_copy = sct_master_copy example_creation_tx\<rparr>]\<rparr>)
        (CreateSafeCreation
              \<lparr>creation_deployer = sct_deployer_address example_creation_tx,
               creation_safe = sct_safe_address example_creation_tx,
               creation_master_copy = sct_master_copy example_creation_tx,
               creation_funder = sct_funder example_creation_tx,
               creation_owners = [example_owner],
               creation_threshold = 1,
               creation_payment = sct_payment example_creation_tx,
               creation_tx_hash = bytes_hex (sct_tx_hash example_creation_tx),
               creation_gas = sct_gas example_creation_tx,
               creation_gas_price = sct_gas_price example_creation_tx,
               creation_payment_token =
                 (if sct_payment_token example_creation_tx = NULL_ADDRESS then None else Some (sct_payment_token example_creation_tx)),
               creation_value = sct_tx_pyethereum_value example_creation_tx,
               creation_v = sct_v example_creation_tx,
               creation_r = sct_r example_creation_tx,
               creation_s = sct_s example_creation_tx,
               creation_data = sct_tx_pyethereum_data example_creation_tx,
               creation_signed_tx = sct_tx_raw example_creation_tx\<rparr>) = Some ''IntegrityError''"
    by (simp add: get_token_eth_value_or_raise_def Let_def bind_def token_objects_get_def objects_get_def
        token_get_eth_value_def or_null_def NULL_ADDRESS_def example_token_def token_world_def
        token_row_def empty_world_def quiet_orm_def value_lookup_fails_def stub_write_fails_def
        record_write_fails_def example_service_def example_safe_service_def gas_station_down_def
        builder_fails_def)
  have cR1: "create_safe_tx record_write_fails example_service 1 [example_owner] 1 None empty_world =
        (Inl (Raised ''IntegrityError''), (empty_world\<lparr>calls := calls empty_world @ [GetGasPrices,
        BuildSafeCreationTx 1 [example_owner] 1 (fast \<lparr>slow = 1, standard = 2, fast = 3\<rparr>) (or_null None) 1
          (safe_fixed_creation_cost example_service)]\<rparr>)\<lparr>safe_contracts := safe_contracts (empty_world\<lparr>calls := calls empty_world @ [GetGasPrices,
        BuildSafeCreationTx 1 [example_owner] 1 (fast \<lparr>slow = 1, standard = 2, fast = 3\<rparr>) (or_null None) 1
          (safe_fixed_creation_cost example_service)]\<rparr>) @ [\<lparr>contract_address = sct_safe_address example_creation_tx, contract_master_copy = sct_master_copy example_creation_tx\<rparr>]\<rparr>) \<and>
      persisted ((empty_world\<lparr>calls := calls empty_world @ [GetGasPrices,
        BuildSafeCreationTx 1 [example_owner] 1 (fast \<lparr>slow = 1, standard = 2, fast = 3\<rparr>) (or_null None) 1
          (safe_fixed_creation_cost example_service)]\<rparr>)\<lparr>safe_contracts := safe_contracts (empty_world\<lparr>calls := calls empty_world @ [GetGasPrices,
        BuildSafeCreationTx 1 [example_owner] 1 (fast \<lparr>slow = 1, standard = 2, fast = 3\<rparr>) (or_null None) 1
          (safe_fixed_creation_cost example_service)]\<rparr>) @ [\<lparr>contract_address = sct_safe_address example_creation_tx, contract_master_copy = sct_master_copy example_creation_tx\<rparr>]\<rparr>) =
        (tokens empty_world, safe_contracts empty_world @ [\<lparr>contract_address = sct_safe_address example_creation_tx, contract_master_copy = sct_master_copy example_creation_tx\<rparr>], safe_creations empty_world, safe_creation2s empty_world)"
    using creation_failure_state[where s = "1"
      and owners = "[example_owner]"
      and threshold = "1"
      and w = "empty_world"
      and db = "record_write_fails"
      and self = "example_service"
      and payment_token = "None"
      and v = "1"
      and wt = "empty_world"
      and x = "''IntegrityError''"
      and prices = "\<lparr>slow = 1, standard = 2, fast = 3\<rparr>"
      and tx = "example_creation_tx"
      and wb = "(empty_world\<lparr>calls := calls empty_world @ [GetGasPrices,
        BuildSafeCreationTx 1 [example_owner] 1 (fast \<lparr>slow = 1, standard = 2, fast = 3\<rparr>) (or_null None) 1
          (safe_fixed_creation_cost example_service)]\<rparr>)"
      and stub = "\<lparr>contract_address = sct_safe_address example_creation_tx, contract_master_copy = sct_master_copy example_creation_tx\<rparr>"] pR1
    by blast
  have rR1: "create_safe_tx record_write_fails example_service 1 [example_owner] 1 None empty_world
     = (Inl (Raised ''IntegrityError''),
        empty_world\<lparr>calls := [GetGasPrices, BuildSafeCreationTx 1 [example_owner] 1 3 NULL_ADDRESS 1 0],
          safe_contracts := [\<lparr>contract_address = example_safe, contract_master_copy = example_master_copy\<rparr>]\<rparr>)"
    using cR1 by (simp add: or_null_def NULL_ADDRESS_def example_token_def empty_world_def token_world_def persisted_def example_service_def
        builder_fails_def example_creation_tx_def example_create2_tx_def)
  have pS2: "get_token_eth_value_or_raise stub_write_fails (Some (or_null None)) empty_world = (Inr 1, empty_world) \<and>
      get_gas_prices (svc_gas_station example_service) (calls empty_world) = Inr \<lparr>slow = 1, standard = 2, fast = 3\<rparr> \<and>
      build_safe_create2_tx (svc_safe_service example_service) (calls empty_world @ [GetGasPrices]) 1 [example_owner]
          1 (fast \<lparr>slow = 1, standard = 2, fast = 3\<rparr>) (or_null None) 1 (safe_fixed_creation_cost example_service) = Inr example_create2_tx \<and>
      (empty_world\<lparr>calls := calls empty_world @ [GetGasPrices,
          BuildSafeCreate2Tx 1 [example_owner] 1 (fast \<lparr>slow = 1, standard = 2, fast = 3\<rparr>) (or_null None) 1
            (safe_fixed_creation_cost example_service)]\<rparr>) = empty_world\<lparr>calls := calls empty_world @ [GetGasPrices,
          BuildSafeCreate2Tx 1 [example_owner] 1 (fast \<lparr>slow = 1, standard = 2, fast = 3\<rparr>) (or_null None) 1
            (safe_fixed_creation_cost example_service)]\<rparr> \<and>
      \<lparr>contract_address = sc2t_safe_address example_create2_tx,
          contract_master_copy = sc2t_master_copy_address example_create2_tx\<rparr> = \<lparr>contract_address = sc2t_safe_address example_create2_tx,
          contract_master_copy = sc2t_master_copy_address example_create2_tx\<rparr> \<and>
      write_error stub_write_fails (empty_world\<lparr>calls := calls empty_world @ [GetGasPrices,
          BuildSafeCreate2Tx 1 [example_owner] 1 (fast \<lparr>slow = 1, standard = 2, fast = 3\<rparr>) (or_null None) 1
            (safe_fixed_creation_cost example_service)]\<rparr>) (CreateSafeContract \<lparr>contract_address = sc2t_safe_address example_create2_tx,
          contract_master_copy = sc2t_master_copy_address example_create2_tx\<rparr>) = Some ''OperationalError''"
    by (simp add: get_token_eth_value_or_raise_def Let_def bind_def token_objects_get_def objects_get_def
        token_get_eth_value_def or_null_def NULL_ADDRESS_def example_token_def token_world_def
        token_row_def empty_world_def quiet_orm_def value_lookup_fails_def stub_write_fails_def
        record_write_fails_def example_service_def example_safe_service_def gas_station_down_def
        builder_fails_def)
  have cS2: "create2_safe_tx stub_write_fails example_service 1 [example_owner] 1 None empty_world = (Inl (Raised ''OperationalError''), (empty_world\<lparr>calls := calls empty_world @ [GetGasPrices,
        BuildSafeCreate2Tx 1 [example_owner] 1 (fast \<lparr>slow = 1, standard = 2, fast = 3\<rparr>) (or_null None) 1
          (safe_fixed_creation_cost example_service)]\<rparr>)) \<and>
      persisted (empty_world\<lparr>calls := calls empty_world @ [GetGasPrices,
        BuildSafeCreate2Tx 1 [example_owner] 1 (fast \<lparr>slow = 1, standard = 2, fast = 3\<rparr>) (or_null None) 1
          (safe_fixed_creation_cost example_service)]\<rparr>) = persisted empty_world"
    using creation_failure_state[where s = "1"
      and owners = "[example_owner]"
      and threshold = "1"
      and w = "empty_world"
      and db = "stub_write_fails"
      and self = "example_service"
      and payment_token = "None"
      and v = "1"
      and wt = "empty_world"
      and x = "''OperationalError''"
      and prices = "\<lparr>slow = 1, standard = 2, fast = 3\<rparr>"
      and tx_s = "example_create2_tx"
      and wb_s = "(empty_world\<lparr>calls := calls empty_world @ [GetGasPrices,
        BuildSafeCreate2Tx 1 [example_owner] 1 (fast \<lparr>slow = 1, standard = 2, fast = 3\<rparr>) (or_null None) 1
          (safe_fixed_creation_cost example_service)]\<rparr>)"
      and stub_s = "\<lparr>contract_address = sc2t_safe_address example_create2_tx,
        contract_master_copy = sc2t_master_copy_address example_create2_tx\<rparr>"] pS2
    by blast
  have rS2: "create2_safe_tx stub_write_fails example_service 1 [example_owner] 1 None empty_world
     = (Inl (Raised ''OperationalError''), empty_world\<lparr>calls := [GetGasPrices, BuildSafeCreate2Tx 1 [example_owner] 1 3 NULL_ADDRESS 1 0]\<rparr>)"
    using cS2 by (simp add: or_null_def NULL_ADDRESS_def example_token_def empty_world_def token_world_def persisted_def example_service_def
        builder_fails_def example_creation_tx_def example_create2_tx_def)
  have pR2: "get_token_eth_value_or_raise record_write_fails (Some (or_null None)) empty_world = (Inr 1, empty_world) \<and>
      get_gas_prices (svc_gas_station example_service) (calls empty_world) = Inr \<lparr>slow = 1, standard = 2, fast = 3\<rparr> \<and>
      build_safe_create2_tx (svc_safe_service example_service) (calls empty_world @ [GetGasPrices]) 1 [example_owner]
          1 (fast \<lparr>slow = 1, standard = 2, fast = 3\<rparr>) (or_null None) 1 (safe_fixed_creation_cost example_service) = Inr example_create2_tx \<and>
      (empty_world\<lparr>calls := calls empty_world @ [GetGasPrices,
          BuildSafeCreate2Tx 1 [example_owner] 1 (fast \<lparr>slow = 1, standard = 2, fast = 3\<rparr>) (or_null None) 1
            (safe_fixed_creation_cost example_service)]\<rparr>) = empty_world\<lparr>calls := calls empty_world @ [GetGasPrices,
          BuildSafeCreate2Tx 1 [example_owner] 1 (fast \<lparr>slow = 1, standard = 2, fast = 3\<rparr>) (or_null None) 1
            (safe_fixed_creation_cost example_service)]\<rparr> \<and>
      \<lparr>contract_address = sc2t_safe_address example_create2_tx,
          contract_master_copy = sc2t_master_copy_address example_create2_tx\<rparr> = \<lparr>contract_address = sc2t_safe_address example_create2_tx,
          contract_master_copy = sc2t_master_copy_address example_create2_tx\<rparr> \<and>
      write_error record_write_fails (empty_world\<lparr>calls := calls empty_world @ [GetGasPrices,
          BuildSafeCreate2Tx 1 [example_owner] 1 (fast \<lparr>slow = 1, standard = 2, fast = 3\<rparr>) (or_null None) 1
            (safe_fixed_creation_cost example_service)]\<rparr>) (CreateSafeContract \<lparr>contract_address = sc2t_safe_address example_create2_tx,
          contract_master_copy = sc2t_master_copy_address example_create2_tx\<rparr>) = None \<and>
      write_error record_write_fails ((empty_world\<lparr>calls := calls empty_world @ [GetGasPrices,
          BuildSafeCreate2Tx 1 [example_owner] 1 (fast \<lparr>slow = 1, standard = 2, fast = 3\<rparr>) (or_null None) 1
            (safe_fixed_creation_cost example_service)]\<rparr>)\<lparr>safe_contracts := safe_contracts (empty_world\<lparr>calls := calls empty_world @ [GetGasPrices,
          BuildSafeCreate2Tx 1 [example_owner] 1 (fast \<lparr>slow = 1, standard = 2, fast = 3\<rparr>) (or_null None) 1
            (safe_fixed_creation_cost example_service)]\<rparr>) @ [\<lparr>contract_address = sc2t_safe_address example_create2_tx,
          contract_master_copy = sc2t_master_copy_address example_create2_tx\<rparr>]\<rparr>)
        (CreateSafeCreation2
              \<lparr>creation2_safe = sc2t_safe_address example_create2_tx,
               creation2_master_copy = sc2t_master_copy_address example_create2_tx,
               creation2_proxy_factory = sc2t_proxy_factory_address example_create2_tx,
               creation2_salt_nonce = 1,
               creation2_owners = [example_owner],
               creation2_threshold = 1,
               creation2_payment_token =
                 (if sc2t_payment_token example_create2_tx = NULL_ADDRESS then None
                  else Some (sc2t_payment_token example_create2_tx)),
               creation2_payment = sc2t_payment example_create2_tx,
               creation2_payment_receiver = sc2t_payment_receiver example_create2_tx,
               creation2_setup_data = sc2t_safe_setup_data example_create2_tx,
               creation2_gas_estimated = sc2t_gas example_create2_tx,
               creation2_gas_price_estimated = sc2t_gas_price example_create2_tx,
               creation2_tx_hash = None\<rparr>) = Some ''IntegrityError''"
    by (simp add: get_token_eth_value_or_raise_def Let_def bind_def token_objects_get_def objects_get_def
        token_get_eth_value_def or_null_def NULL_ADDRESS_def example_token_def token_world_def
        token_row_def empty_world_def quiet_orm_def value_lookup_fails_def stub_write_fails_def
        record_write_fails_def example_service_def example_safe_service_def gas_station_down_def
        builder_fails_def)
  have cR2: "create2_safe_tx record_write_fails example_service 1 [example_owner] 1 None empty_world =
        (Inl (Raised ''IntegrityError''), (empty_world\<lparr>calls := calls empty_world @ [GetGasPrices,
        BuildSafeCreate2Tx 1 [example_owner] 1 (fast \<lparr>slow = 1, standard = 2, fast = 3\<rparr>) (or_null None) 1
          (safe_fixed_creation_cost example_service)]\<rparr>)\<lparr>safe_contracts := safe_contracts (empty_world\<lparr>calls := calls empty_world @ [GetGasPrices,
        BuildSafeCreate2Tx 1 [example_owner] 1 (fast \<lparr>slow = 1, standard = 2, fast = 3\<rparr>) (or_null None) 1
          (safe_fixed_creation_cost example_service)]\<rparr>) @ [\<lparr>contract_address = sc2t_safe_address example_create2_tx,
        contract_master_copy = sc2t_master_copy_address example_create2_tx\<rparr>]\<rparr>) \<and>
      persisted ((empty_world\<lparr>calls := calls empty_world @ [GetGasPrices,
        BuildSafeCreate2Tx 1 [example_owner] 1 (fast \<lparr>slow = 1, standard = 2, fast = 3\<rparr>) (or_null None) 1
          (safe_fixed_creation_cost example_service)]\<rparr>)\<lparr>safe_contracts := safe_contracts (empty_world\<lparr>calls := calls empty_world @ [GetGasPrices,
        BuildSafeCreate2Tx 1 [example_owner] 1 (fast \<lparr>slow = 1, standard = 2, fast = 3\<rparr>) (or_null None) 1
          (safe_fixed_creation_cost example_service)]\<rparr>) @ [\<lparr>contract_address = sc2t_safe_address example_create2_tx,
        contract_master_copy = sc2t_master_copy_address example_create2_tx\<rparr>]\<rparr>) =
        (tokens empty_world, safe_contracts empty_world @ [\<lparr>contract_address = sc2t_safe_address example_create2_tx,
        contract_master_copy = sc2t_master_copy_address example_create2_tx\<rparr>], safe_creations empty_world, safe_creation2s empty_world)"
    using creation_failure_state[where s = "1"
      and owners = "[example_owner]"
      and threshold = "1"
      and w = "empty_world"
      and db = "record_write_fails"
      and self = "example_service"
      and payment_token = "None"
      and v = "1"
      and wt = "empty_world"
      and x = "''IntegrityError''"
      and prices = "\<lparr>slow = 1, standard = 2, fast = 3\<rparr>"
      and tx_s = "example_create2_tx"
      and wb_s = "(empty_world\<lparr>calls := calls empty_world @ [GetGasPrices,
        BuildSafeCreate2Tx 1 [example_owner] 1 (fast \<lparr>slow = 1, standard = 2, fast = 3\<rparr>) (or_null None) 1
          (safe_fixed_creation_cost example_service)]\<rparr>)"
      and stub_s = "\<lparr>contract_address = sc2t_safe_address example_create2_tx,
        contract_master_copy = sc2t_master_copy_address example_create2_tx\<rparr>"] pR2
    by blast
  have rR2: "create2_safe_tx record_write_fails example_service 1 [example_owner] 1 None empty_world
     = (Inl (Raised ''IntegrityError''),
        empty_world\<lparr>calls := [GetGasPrices, BuildSafeCreate2Tx 1 [example_owner] 1 3 NULL_ADDRESS 1 0],
          safe_contracts := [\<lparr>contract_address = example_safe, contract_master_copy = example_master_copy\<rparr>]\<rparr>)"
    using cR2 by (simp add: or_null_def NULL_ADDRESS_def example_token_def empty_world_def token_world_def persisted_def example_service_def
        builder_fails_def example_creation_tx_def example_create2_tx_def)
  show ?thesis
    using rU rT rG rB1 rB2 rS1 rR1 rS2 rR2 by blast
qed

text \<open>
  The claim as stated fails: when the persistence layer rejects the creation record, the call
  fails and the stub written just before is left without a record, in both schemes.
\<close>

theorem orphaned_stub_counterexample:
  "fst (create_safe_tx record_write_fails example_service 1 [example_owner] 1 None empty_world)
     = Inl (Raised ''IntegrityError'') \<and>
   safe_contracts (snd (create_safe_tx record_write_fails example_service 1 [example_owner] 1 None
      empty_world))
     = [\<lparr>contract_address = example_safe, contract_master_copy = example_master_copy\<rparr>] \<and>
   safe_creations (snd (create_safe_tx record_write_fails example_service 1 [example_owner] 1 None
      empty_world)) = [] \<and>
   fst (create2_safe_tx record_write_fails example_service 1 [example_owner] 1 None empty_world)
     = Inl (Raised ''IntegrityError'') \<and>
   safe_contracts (snd (create2_safe_tx record_write_fails example_service 1 [example_owner] 1 None
      empty_world))
     = [\<lparr>contract_address = example_safe, contract_master_copy = example_master_copy\<rparr>] \<and>
   safe_creation2s (snd (create2_safe_tx record_write_fails example_service 1 [example_owner] 1 None
      empty_world)) = []"
  by (simp add: create_safe_tx_def create2_safe_tx_def get_token_eth_value_or_raise_def
      bind_def ask_def perform_write_def or_null_def Let_def
      example_safe_def example_master_copy_def example_owner_def example_creation_tx_def
      example_create2_tx_def example_safe_service_def example_service_def record_write_fails_def
      empty_world_def NULL_ADDRESS_def)

subsection \<open>The stored payment token\<close>

lemma create_safe_tx_payment_token:
  assumes "create_safe_tx db self s owners threshold payment_token w = (r, w')"
  shows "(safe_creations w' = safe_creations w \<and> (\<forall>row. r \<noteq> Inr row)) \<or>
     (\<exists>row. r = Inr row \<and> safe_creations w' = safe_creations w @ [row] \<and>
        creation_payment_token row \<noteq> Some NULL_ADDRESS)"
  using assms get_token_persisted[of db "Some (or_null payment_token)" w]
  apply (simp add: create_safe_tx_def Let_def bind_def split: prod.splits sum.splits)
  apply (auto simp: ask_def persisted_def split: if_splits dest!: perform_write_Inl perform_write_Inr)
  done

lemma create2_safe_tx_payment_token:
  assumes "create2_safe_tx db self s owners threshold payment_token w = (r, w')"
  shows "(safe_creation2s w' = safe_creation2s w \<and> (\<forall>row. r \<noteq> Inr row)) \<or>
     (\<exists>row. r = Inr row \<and> safe_creation2s w' = safe_creation2s w @ [row] \<and>
        creation2_payment_token row \<noteq> Some NULL_ADDRESS)"
  using assms get_token_persisted[of db "Some (or_null payment_token)" w]
  apply (simp add: create2_safe_tx_def Let_def bind_def split: prod.splits sum.splits)
  apply (auto simp: ask_def persisted_def split: if_splits dest!: perform_write_Inl perform_write_Inr)
  done

text \<open>
  Claim C10. Whatever the builder hands back, a call of \<^verbatim>\<open>create_safe_tx\<close> or
  \<^verbatim>\<open>create2_safe_tx\<close> either adds no creation record, or adds exactly the record it
  returns, and the payment-token field of that record is never the zero address: the zero
  address is stored as null, so a stored non-null token is a non-native address. Neither call
  touches the other scheme's records.
\<close>

theorem stored_payment_token_never_null_address:
  "(create_safe_tx db self s owners threshold payment_token w = (r, w') \<longrightarrow>
      safe_creation2s w' = safe_creation2s w \<and>
      ((safe_creations w' = safe_creations w \<and> (\<forall>row. r \<noteq> Inr row)) \<or>
       (\<exists>row. r = Inr row \<and> safe_creations w' = safe_creations w @ [row] \<and>
          creation_payment_token row \<noteq> Some NULL_ADDRESS))) \<and>
   (create2_safe_tx db self s owners threshold payment_token w = (r2, w2) \<longrightarrow>
      safe_creations w2 = safe_creations w \<and>
      ((safe_creation2s w2 = safe_creation2s w \<and> (\<forall>row. r2 \<noteq> Inr row)) \<or>
       (\<exists>row. r2 = Inr row \<and> safe_creation2s w2 = safe_creation2s w @ [row] \<and>
          creation2_payment_token row \<noteq> Some NULL_ADDRESS)))"
proof (intro conjI impI)
  assume a: "create_safe_tx db self s owners threshold payment_token w = (r, w')"
  then show "(safe_creations w' = safe_creations w \<and> (\<forall>row. r \<noteq> Inr row)) \<or>
       (\<exists>row. r = Inr row \<and> safe_creations w' = safe_creations w @ [row] \<and>
          creation_payment_token row \<noteq> Some NULL_ADDRESS)"
    by (rule create_safe_tx_payment_token)
  show "safe_creation2s w' = safe_creation2s w"
    using a get_token_persisted[of db "Some (or_null payment_token)" w]
    apply (simp add: create_safe_tx_def Let_def bind_def split: prod.splits sum.splits)
    apply (auto simp: ask_def persisted_def dest!: perform_write_Inl perform_write_Inr)
    done
next
  assume a: "create2_safe_tx db self s owners threshold payment_token w = (r2, w2)"
  then show "(safe_creation2s w2 = safe_creation2s w \<and> (\<forall>row. r2 \<noteq> Inr row)) \<or>
       (\<exists>row. r2 = Inr row \<and> safe_creation2s w2 = safe_creation2s w @ [row] \<and>
          creation2_payment_token row \<noteq> Some NULL_ADDRESS)"
    by (rule create2_safe_tx_payment_token)
  show "safe_creations w2 = safe_creations w"
    using a get_token_persisted[of db "Some (or_null payment_token)" w]
    apply (simp add: create2_safe_tx_def Let_def bind_def split: prod.splits sum.splits)
    apply (auto simp: ask_def persisted_def dest!: perform_write_Inl perform_write_Inr)
    done
qed

theorem stored_payment_token_never_null_address_witness:
  "map creation_payment_token (safe_creations (snd
      (create_safe_tx quiet_orm echo_service 1 [example_owner] 1 None empty_world))) = [None] \<and>
   map creation_payment_token (safe_creations (snd
      (create_safe_tx quiet_orm echo_service 1 [example_owner] 1 (Some NULL_ADDRESS) empty_world)))
     = [None] \<and>
   map creation_payment_token (safe_creations (snd
      (create_safe_tx quiet_orm echo_service 1 [example_owner] 1 (Some example_token) token_world)))
     = [Some example_token] \<and>
   map creation2_payment_token (safe_creation2s (snd
      (create2_safe_tx quiet_orm echo_service 1 [example_owner] 1 None empty_world))) = [None] \<and>
   map creation2_payment_token (safe_creation2s (snd
      (create2_safe_tx quiet_orm echo_service 1 [example_owner] 1 (Some example_token) token_world)))
     = [Some example_token]"
  using stored_payment_token_never_null_address[of quiet_orm echo_service 1 "[example_owner]" 1
      None empty_world
      "fst (create_safe_tx quiet_orm echo_service 1 [example_owner] 1 None empty_world)"
      "snd (create_safe_tx quiet_orm echo_service 1 [example_owner] 1 None empty_world)"
      "fst (create2_safe_tx quiet_orm echo_service 1 [example_owner] 1 None empty_world)"
      "snd (create2_safe_tx quiet_orm echo_service 1 [example_owner] 1 None empty_world)"]
  by (simp add: create_safe_tx_def create2_safe_tx_def get_token_eth_value_or_raise_def
      bind_def ask_def perform_write_def or_null_def Let_def token_objects_get_def objects_get_def
      token_get_eth_value_def token_row_def token_world_def echo_service_def
      example_token_def example_safe_def example_master_copy_def example_owner_def
      example_creation_tx_def example_create2_tx_def example_safe_service_def example_service_def
      quiet_orm_def empty_world_def NULL_ADDRESS_def)

subsection \<open>Deployment of a salted wallet\<close>

lemma objects_get_Inr:
  "objects_get p rows = Inr r \<Longrightarrow> filter p rows = [r]"
  by (simp add: objects_get_def split: list.splits)

lemma filter_single_member:
  "filter p rows = [r] \<Longrightarrow> p r \<and> r \<in> set rows"
proof -
  assume a: "filter p rows = [r]"
  then have "r \<in> set (filter p rows)" by simp
  then show ?thesis by simp
qed

lemma deploy_missing_record:
  assumes "filter (\<lambda>r. creation2_safe r = a) (safe_creation2s w) = []"
  shows "deploy_create2_safe_tx db self a w = (Inl DoesNotExist, w)"
  using assms
  by (simp add: deploy_create2_safe_tx_def bind_def safe_creation2_objects_get_def objects_get_def)

lemma deploy_success:
  assumes "deploy_create2_safe_tx db self a w = (Inr h, w')"
  shows "\<exists>row raw. filter (\<lambda>r. creation2_safe r = a) (safe_creation2s w) = [row] \<and>
     deploy_proxy_contract_with_nonce (svc_safe_service self) (calls w)
       (creation2_salt_nonce row) (creation2_setup_data row) (creation2_gas_estimated row)
       (creation2_gas_price_estimated row) (safe_funder_private_key self) = Inr (h, raw) \<and>
     calls w' = calls w @ [DeployProxyContractWithNonce (creation2_salt_nonce row)
       (creation2_setup_data row) (creation2_gas_estimated row)
       (creation2_gas_price_estimated row) (safe_funder_private_key self)] \<and>
     safe_creation2s w' =
       map (\<lambda>r. if creation2_safe r = a then row\<lparr>creation2_tx_hash := Some h\<rparr> else r)
         (safe_creation2s w) \<and>
     safe_contracts w' = safe_contracts w \<and> safe_creations w' = safe_creations w \<and>
     tokens w' = tokens w"
proof -
  from assms obtain row where
    g: "objects_get (\<lambda>r. creation2_safe r = a) (safe_creation2s w) = Inr row"
    by (auto simp: deploy_create2_safe_tx_def bind_def safe_creation2_objects_get_def
        split: sum.splits prod.splits)
  then have f: "filter (\<lambda>r. creation2_safe r = a) (safe_creation2s w) = [row]"
    by (rule objects_get_Inr)
  then have m: "creation2_safe row = a" "row \<in> set (safe_creation2s w)"
    using filter_single_member[of "\<lambda>r. creation2_safe r = a" "safe_creation2s w" row] by simp_all
  then have ex: "\<exists>r' \<in> set (safe_creation2s w). creation2_safe r' = a" by blast
  show ?thesis
    using assms g f m ex
    apply (simp add: deploy_create2_safe_tx_def bind_def safe_creation2_objects_get_def Let_def
        ask_def split: sum.splits prod.splits)
    apply (auto simp: perform_write_def split: option.splits)
    done
qed

text \<open>
  Claim C7, as amended. When no salted record exists for the address,
  \<^verbatim>\<open>deploy_create2_safe_tx\<close> raises \<^verbatim>\<open>DoesNotExist\<close> and the world is as it
  was: nothing is submitted and nothing is written. A call that returns a hash found exactly
  one record, submitted exactly one deployment with that record's salt, setup data, gas and gas
  price and the funder's key, and wrote the returned hash into that record's
  \<^verbatim>\<open>tx_hash\<close>, leaving every other row and table alone. This holds for each call on
  its own: nothing in the function looks at an earlier deployment.
\<close>

theorem deploy_create2_safe_tx_spec:
  "(filter (\<lambda>r. creation2_safe r = a) (safe_creation2s w) = [] \<longrightarrow>
      deploy_create2_safe_tx db self a w = (Inl DoesNotExist, w)) \<and>
   (deploy_create2_safe_tx db self a w = (Inr h, w') \<longrightarrow>
      (\<exists>row raw. filter (\<lambda>r. creation2_safe r = a) (safe_creation2s w) = [row] \<and>
         deploy_proxy_contract_with_nonce (svc_safe_service self) (calls w)
           (creation2_salt_nonce row) (creation2_setup_data row) (creation2_gas_estimated row)
           (creation2_gas_price_estimated row) (safe_funder_private_key self) = Inr (h, raw) \<and>
         calls w' = calls w @ [DeployProxyContractWithNonce (creation2_salt_nonce row)
           (creation2_setup_data row) (creation2_gas_estimated row)
           (creation2_gas_price_estimated row) (safe_funder_private_key self)] \<and>
         safe_creation2s w' =
           map (\<lambda>r. if creation2_safe r = a then row\<lparr>creation2_tx_hash := Some h\<rparr> else r)
             (safe_creation2s w) \<and>
         safe_contracts w' = safe_contracts w \<and> safe_creations w' = safe_creations w \<and>
         tokens w' = tokens w))"
  using deploy_missing_record[of a w db self] deploy_success[of db self a w h w'] by blast

theorem deploy_create2_safe_tx_spec_witness:
  "deploy_create2_safe_tx quiet_orm example_service example_safe empty_world
     = (Inl DoesNotExist, empty_world) \<and>
   fst (deploy_create2_safe_tx quiet_orm example_service example_safe salted_world) = Inr [0] \<and>
   calls (snd (deploy_create2_safe_tx quiet_orm example_service example_safe salted_world))
     = [DeployProxyContractWithNonce 5 [7] 21000 5 ''key''] \<and>
   safe_creation2s (snd (deploy_create2_safe_tx quiet_orm example_service example_safe salted_world))
     = [example_creation2\<lparr>creation2_tx_hash := Some [0]\<rparr>]"
  using deploy_create2_safe_tx_spec[of example_safe empty_world quiet_orm example_service]
    deploy_create2_safe_tx_spec[of example_safe salted_world quiet_orm example_service "[0]"
      "snd (deploy_create2_safe_tx quiet_orm example_service example_safe salted_world)"]
  by (simp add: deploy_create2_safe_tx_def safe_creation2_objects_get_def objects_get_def
      bind_def ask_def perform_write_def Let_def salted_world_def example_creation2_def
      example_safe_def example_master_copy_def example_owner_def
      example_safe_service_def example_service_def quiet_orm_def empty_world_def NULL_ADDRESS_def)

text \<open>
  The claim as stated fails: a second call for the same wallet submits a second deployment
  and writes over the hash the first call stored.
\<close>

theorem redeploy_counterexample:
  "fst (deploy_create2_safe_tx quiet_orm example_service example_safe salted_world) = Inr [0] \<and>
   fst (deploy_create2_safe_tx quiet_orm example_service example_safe
      (snd (deploy_create2_safe_tx quiet_orm example_service example_safe salted_world))) = Inr [1] \<and>
   calls (snd (deploy_create2_safe_tx quiet_orm example_service example_safe
      (snd (deploy_create2_safe_tx quiet_orm example_service example_safe salted_world))))
     = [DeployProxyContractWithNonce 5 [7] 21000 5 ''key'',
        DeployProxyContractWithNonce 5 [7] 21000 5 ''key''] \<and>
   map creation2_tx_hash (safe_creation2s
      (snd (deploy_create2_safe_tx quiet_orm example_service example_safe salted_world)))
     = [Some [0]] \<and>
   map creation2_tx_hash (safe_creation2s (snd (deploy_create2_safe_tx quiet_orm example_service
      example_safe (snd (deploy_create2_safe_tx quiet_orm example_service example_safe salted_world)))))
     = [Some [1]]"
  by (simp add: deploy_create2_safe_tx_def safe_creation2_objects_get_def objects_get_def
      bind_def ask_def perform_write_def Let_def salted_world_def example_creation2_def
      example_safe_def example_master_copy_def example_owner_def
      example_safe_service_def example_service_def quiet_orm_def empty_world_def NULL_ADDRESS_def)

subsection \<open>Reading a wallet\<close>

text \<open>
  Claim C8, as amended. \<^verbatim>\<open>retrieve_safe_info\<close> reads the nonce, the threshold, the
  owners, the master copy and the version, in that order, each from the chain as it is at that
  moment; nothing is kept from an earlier call. When the five reads answer, it returns the
  \<^verbatim>\<open>SafeInfo\<close> of the queried address and the five answers, with exactly these five
  reads made. When a read raises, the call raises that same exception, unchanged, and makes no
  later read.
\<close>

theorem retrieve_safe_info_spec:
  "(retrieve_nonce (svc_safe_service self) (calls w) a = Inr n \<and>
    retrieve_threshold (svc_safe_service self) (calls w @ [RetrieveNonce a]) a = Inr t \<and>
    retrieve_owners (svc_safe_service self) (calls w @ [RetrieveNonce a, RetrieveThreshold a]) a = Inr os \<and>
    retrieve_master_copy_address (svc_safe_service self) (calls w @ [RetrieveNonce a, RetrieveThreshold a, RetrieveOwners a]) a = Inr m \<and>
    retrieve_version (svc_safe_service self) (calls w @ [RetrieveNonce a, RetrieveThreshold a, RetrieveOwners a, RetrieveMasterCopyAddress a]) a = Inr v \<longrightarrow>
      retrieve_safe_info self a w =
        (Inr \<lparr>info_address = a, info_nonce = n, info_threshold = t, info_owners = os,
              info_master_copy = m, info_version = v\<rparr>,
         w\<lparr>calls := calls w @ [RetrieveNonce a, RetrieveThreshold a, RetrieveOwners a, RetrieveMasterCopyAddress a, RetrieveVersion a]\<rparr>)) \<and>
   (retrieve_nonce (svc_safe_service self) (calls w) a = Inl x \<longrightarrow>
      retrieve_safe_info self a w =
        (Inl (Raised x), w\<lparr>calls := calls w @ [RetrieveNonce a]\<rparr>)) \<and>
   (retrieve_nonce (svc_safe_service self) (calls w) a = Inr n \<and>
    retrieve_threshold (svc_safe_service self) (calls w @ [RetrieveNonce a]) a = Inl x \<longrightarrow>
      retrieve_safe_info self a w =
        (Inl (Raised x), w\<lparr>calls := calls w @ [RetrieveNonce a, RetrieveThreshold a]\<rparr>)) \<and>
   (retrieve_nonce (svc_safe_service self) (calls w) a = Inr n \<and>
    retrieve_threshold (svc_safe_service self) (calls w @ [RetrieveNonce a]) a = Inr t \<and>
    retrieve_owners (svc_safe_service self) (calls w @ [RetrieveNonce a, RetrieveThreshold a]) a = Inl x \<longrightarrow>
      retrieve_safe_info self a w =
        (Inl (Raised x), w\<lparr>calls := calls w @ [RetrieveNonce a, RetrieveThreshold a, RetrieveOwners a]\<rparr>)) \<and>
   (retrieve_nonce (svc_safe_service self) (calls w) a = Inr n \<and>
    retrieve_threshold (svc_safe_service self) (calls w @ [RetrieveNonce a]) a = Inr t \<and>
    retrieve_owners (svc_safe_service self) (calls w @ [RetrieveNonce a, RetrieveThreshold a]) a = Inr os \<and>
    retrieve_master_copy_address (svc_safe_service self) (calls w @ [RetrieveNonce a, RetrieveThreshold a, RetrieveOwners a]) a = Inl x \<longrightarrow>
      retrieve_safe_info self a w =
        (Inl (Raised x), w\<lparr>calls := calls w @ [RetrieveNonce a, RetrieveThreshold a, RetrieveOwners a, RetrieveMasterCopyAddress a]\<rparr>)) \<and>
   (retrieve_nonce (svc_safe_service self) (calls w) a = Inr n \<and>
    retrieve_threshold (svc_safe_service self) (calls w @ [RetrieveNonce a]) a = Inr t \<and>
    retrieve_owners (svc_safe_service self) (calls w @ [RetrieveNonce a, RetrieveThreshold a]) a = Inr os \<and>
    retrieve_master_copy_address (svc_safe_service self) (calls w @ [RetrieveNonce a, RetrieveThreshold a, RetrieveOwners a]) a = Inr m \<and>
    retrieve_version (svc_safe_service self) (calls w @ [RetrieveNonce a, RetrieveThreshold a, RetrieveOwners a, RetrieveMasterCopyAddress a]) a = Inl x \<longrightarrow>
      retrieve_safe_info self a w =
        (Inl (Raised x), w\<lparr>calls := calls w @ [RetrieveNonce a, RetrieveThreshold a, RetrieveOwners a, RetrieveMasterCopyAddress a, RetrieveVersion a]\<rparr>))"
  by (intro conjI impI; (elim conjE)?; simp add: retrieve_safe_info_def bind_def ask_def)

theorem retrieve_safe_info_spec_witness:
  "retrieve_safe_info moving_chain example_safe empty_world =
     (Inr \<lparr>info_address = example_safe, info_nonce = 0, info_threshold = 1,
           info_owners = [example_owner], info_master_copy = example_master_copy,
           info_version = ''1.0.0''\<rparr>,
      read_world) \<and>
   fst (retrieve_safe_info moving_chain example_safe read_world) =
     Inr \<lparr>info_address = example_safe, info_nonce = 5, info_threshold = 1,
          info_owners = [example_owner], info_master_copy = example_master_copy,
          info_version = ''1.0.0''\<rparr> \<and>
   length (calls (snd (retrieve_safe_info moving_chain example_safe read_world))) = 10 \<and>
   retrieve_safe_info nonce_read_fails example_safe empty_world =
     (Inl (Raised ''ConnectionError''), empty_world\<lparr>calls := [RetrieveNonce example_safe]\<rparr>) \<and>
   retrieve_safe_info threshold_read_fails example_safe empty_world =
     (Inl (Raised ''ConnectionError''),
      empty_world\<lparr>calls := [RetrieveNonce example_safe, RetrieveThreshold example_safe]\<rparr>)"
proof -
  have pa: "retrieve_nonce (svc_safe_service moving_chain) (calls empty_world) example_safe = Inr 0 \<and>
      retrieve_threshold (svc_safe_service moving_chain) (calls empty_world @ [RetrieveNonce example_safe]) example_safe = Inr 1 \<and>
      retrieve_owners (svc_safe_service moving_chain) (calls empty_world @ [RetrieveNonce example_safe, RetrieveThreshold example_safe]) example_safe = Inr [example_owner] \<and>
      retrieve_master_copy_address (svc_safe_service moving_chain) (calls empty_world @ [RetrieveNonce example_safe, RetrieveThreshold example_safe, RetrieveOwners example_safe]) example_safe = Inr example_master_copy \<and>
      retrieve_version (svc_safe_service moving_chain) (calls empty_world @ [RetrieveNonce example_safe, RetrieveThreshold example_safe, RetrieveOwners example_safe, RetrieveMasterCopyAddress example_safe]) example_safe = Inr ''1.0.0''"
    by (simp add: moving_chain_def nonce_read_fails_def threshold_read_fails_def example_service_def
        example_safe_service_def empty_world_def read_world_def)
  have ca: "retrieve_safe_info moving_chain example_safe empty_world =
        (Inr \<lparr>info_address = example_safe, info_nonce = 0, info_threshold = 1, info_owners = [example_owner],
              info_master_copy = example_master_copy, info_version = ''1.0.0''\<rparr>,
         empty_world\<lparr>calls := calls empty_world @ [RetrieveNonce example_safe, RetrieveThreshold example_safe, RetrieveOwners example_safe, RetrieveMasterCopyAddress example_safe, RetrieveVersion example_safe]\<rparr>)"
    using retrieve_safe_info_spec[where self = "moving_chain"
      and a = "example_safe"
      and w = "empty_world"
      and n = "0"
      and t = "1"
      and os = "[example_owner]"
      and m = "example_master_copy"
      and v = "''1.0.0''"] pa
    by blast
  have ra: "retrieve_safe_info moving_chain example_safe empty_world =
     (Inr \<lparr>info_address = example_safe, info_nonce = 0, info_threshold = 1,
           info_owners = [example_owner], info_master_copy = example_master_copy,
           info_version = ''1.0.0''\<rparr>,
      read_world)"
    using ca by (simp add: empty_world_def read_world_def)
  have pb: "retrieve_nonce (svc_safe_service moving_chain) (calls read_world) example_safe = Inr 5 \<and>
      retrieve_threshold (svc_safe_service moving_chain) (calls read_world @ [RetrieveNonce example_safe]) example_safe = Inr 1 \<and>
      retrieve_owners (svc_safe_service moving_chain) (calls read_world @ [RetrieveNonce example_safe, RetrieveThreshold example_safe]) example_safe = Inr [example_owner] \<and>
      retrieve_master_copy_address (svc_safe_service moving_chain) (calls read_world @ [RetrieveNonce example_safe, RetrieveThreshold example_safe, RetrieveOwners example_safe]) example_safe = Inr example_master_copy \<and>
      retrieve_version (svc_safe_service moving_chain) (calls read_world @ [RetrieveNonce example_safe, RetrieveThreshold example_safe, RetrieveOwners example_safe, RetrieveMasterCopyAddress example_safe]) example_safe = Inr ''1.0.0''"
    by (simp add: moving_chain_def nonce_read_fails_def threshold_read_fails_def example_service_def
        example_safe_service_def empty_world_def read_world_def)
  have cb: "retrieve_safe_info moving_chain example_safe read_world =
        (Inr \<lparr>info_address = example_safe, info_nonce = 5, info_threshold = 1, info_owners = [example_owner],
              info_master_copy = example_master_copy, info_version = ''1.0.0''\<rparr>,
         read_world\<lparr>calls := calls read_world @ [RetrieveNonce example_safe, RetrieveThreshold example_safe, RetrieveOwners example_safe, RetrieveMasterCopyAddress example_safe, RetrieveVersion example_safe]\<rparr>)"
    using retrieve_safe_info_spec[where self = "moving_chain"
      and a = "example_safe"
      and w = "read_world"
      and n = "5"
      and t = "1"
      and os = "[example_owner]"
      and m = "example_master_copy"
      and v = "''1.0.0''"] pb
    by blast
  have rb: "fst (retrieve_safe_info moving_chain example_safe read_world) =
     Inr \<lparr>info_address = example_safe, info_nonce = 5, info_threshold = 1,
          info_owners = [example_owner], info_master_copy = example_master_copy,
          info_version = ''1.0.0''\<rparr> \<and>
    length (calls (snd (retrieve_safe_info moving_chain example_safe read_world))) = 10"
    using cb by (simp add: empty_world_def read_world_def)
  have pc: "retrieve_nonce (svc_safe_service nonce_read_fails) (calls empty_world) example_safe = Inl ''ConnectionError''"
    by (simp add: moving_chain_def nonce_read_fails_def threshold_read_fails_def example_service_def
        example_safe_service_def empty_world_def read_world_def)
  have cc: "retrieve_safe_info nonce_read_fails example_safe empty_world =
        (Inl (Raised ''ConnectionError''), empty_world\<lparr>calls := calls empty_world @ [RetrieveNonce example_safe]\<rparr>)"
    using retrieve_safe_info_spec[where self = "nonce_read_fails"
      and a = "example_safe"
      and w = "empty_world"
      and x = "''ConnectionError''"] pc
    by blast
  have rc: "retrieve_safe_info nonce_read_fails example_safe empty_world =
     (Inl (Raised ''ConnectionError''), empty_world\<lparr>calls := [RetrieveNonce example_safe]\<rparr>)"
    using cc by (simp add: empty_world_def read_world_def)
  have pd: "retrieve_nonce (svc_safe_service threshold_read_fails) (calls empty_world) example_safe = Inr 0 \<and>
      retrieve_threshold (svc_safe_service threshold_read_fails) (calls empty_world @ [RetrieveNonce example_safe]) example_safe = Inl ''ConnectionError''"
    by (simp add: moving_chain_def nonce_read_fails_def threshold_read_fails_def example_service_def
        example_safe_service_def empty_world_def read_world_def)
  have cd: "retrieve_safe_info threshold_read_fails example_safe empty_world =
        (Inl (Raised ''ConnectionError''), empty_world\<lparr>calls := calls empty_world @ [RetrieveNonce example_safe, RetrieveThreshold example_safe]\<rparr>)"
    using retrieve_safe_info_spec[where self = "threshold_read_fails"
      and a = "example_safe"
      and w = "empty_world"
      and n = "0"
      and x = "''ConnectionError''"] pd
    by blast
  have rd: "retrieve_safe_info threshold_read_fails example_safe empty_world =
     (Inl (Raised ''ConnectionError''),
      empty_world\<lparr>calls := [RetrieveNonce example_safe, RetrieveThreshold example_safe]\<rparr>)"
    using cd by (simp add: empty_world_def read_world_def)
  show ?thesis
    using ra rb rc rd by blast
qed

text \<open>
  The claim as stated fails: a failing nonce read ends the call after one read, and the error
  is the read's own exception, the same one a failing threshold read gives: it does not name
  the read that failed.
\<close>

theorem failed_read_counterexample:
  "retrieve_safe_info nonce_read_fails example_safe empty_world =
     (Inl (Raised ''ConnectionError''), empty_world\<lparr>calls := [RetrieveNonce example_safe]\<rparr>) \<and>
   fst (retrieve_safe_info threshold_read_fails example_safe empty_world)
     = Inl (Raised ''ConnectionError'') \<and>
   fst (retrieve_safe_info nonce_read_fails example_safe empty_world)
     = fst (retrieve_safe_info threshold_read_fails example_safe empty_world)"
  by (simp add: retrieve_safe_info_def bind_def ask_def nonce_read_fails_def
      threshold_read_fails_def example_safe_service_def example_service_def empty_world_def)

section \<open>Properties of the packed signatures\<close>

lemma length_uint_bytes: "length (uint_bytes n x) = n"
  by (induction n arbitrary: x) simp_all

lemma bytes_uint_snoc: "bytes_uint (bs @ [b]) = 256 * bytes_uint bs + unat b"
  by (simp add: bytes_uint_def)

lemma bytes_uint_uint_bytes: "bytes_uint (uint_bytes n x) = x mod 256 ^ n"
proof (induction n arbitrary: x)
  case 0
  show ?case by (simp add: bytes_uint_def)
next
  case (Suc n)
  have b: "unat (of_nat (x mod 256) :: 8 word) = x mod 256"
    by (simp add: unat_of_nat)
  have "x mod (256 * 256 ^ n) = 256 * (x div 256 mod 256 ^ n) + x mod 256"
    by (rule mod_mult2_eq)
  then show ?case
    using Suc[of "x div 256"] b by (simp add: bytes_uint_snoc)
qed

lemma bytes_uint_word: "bytes_uint (uint_bytes 32 (unat (r :: 256 word))) = unat r"
proof -
  have "unat r < 2 ^ LENGTH(256)" by (rule unsigned_less)
  moreover have "(256::nat) ^ 32 = 2 ^ 256" by simp
  ultimately have "unat r < 256 ^ 32" by simp
  then show ?thesis by (simp only: bytes_uint_uint_bytes mod_less)
qed

lemma uint_bytes_zero: "uint_bytes n 0 = replicate n 0"
  by (induction n) (simp_all add: replicate_append_same)

lemma uint_bytes_small: "x < 256 \<Longrightarrow> uint_bytes (Suc n) x = replicate n 0 @ [of_nat x]"
  by (simp add: uint_bytes_zero)

lemma length_signature_to_bytes: "length (signature_to_bytes sig) = 65"
  by (cases sig) (simp add: signature_to_bytes_def length_uint_bytes del: uint_bytes.simps)

lemma length_signatures_to_bytes: "length (signatures_to_bytes sigs) = 65 * length sigs"
  by (induction sigs) (simp_all add: signatures_to_bytes_def length_signature_to_bytes)

lemma signatures_to_bytes_Cons:
  "signatures_to_bytes (sig # sigs) = signature_to_bytes sig @ signatures_to_bytes sigs"
  by (simp add: signatures_to_bytes_def)

lemma signatures_to_bytes_chunk:
  "i < length sigs \<Longrightarrow>
   take 65 (drop (65 * i) (signatures_to_bytes sigs)) = signature_to_bytes (sigs ! i)"
proof (induction sigs arbitrary: i)
  case Nil
  then show ?case by simp
next
  case (Cons sig sigs)
  show ?case
  proof (cases i)
    case 0
    then show ?thesis
      by (simp add: signatures_to_bytes_Cons length_signature_to_bytes)
  next
    case (Suc j)
    then have "j < length sigs" using Cons.prems by simp
    then show ?thesis
      using Cons.IH[of j] Suc
      by (simp add: signatures_to_bytes_Cons length_signature_to_bytes)
  qed
qed

text \<open>
  Claim C9. The packed signatures of \<open>n\<close> triples are \<open>65 * n\<close> bytes long, and the
  \<open>i\<close>-th run of 65 bytes is the \<open>i\<close>-th triple of the list: its first 32 bytes are
  \<open>r\<close>, the next 32 are \<open>s\<close> and the last one is \<open>v\<close>. The 32 bytes hold the whole of
  \<open>r\<close> and of \<open>s\<close>: read back as a number they give the same value.
\<close>

theorem signatures_to_bytes_layout:
  "length (signatures_to_bytes sigs) = 65 * length sigs \<and>
   (i < length sigs \<longrightarrow>
      take 65 (drop (65 * i) (signatures_to_bytes sigs)) = signature_to_bytes (sigs ! i)) \<and>
   take 32 (signature_to_bytes (v, r, s)) = uint_bytes 32 (unat r) \<and>
   take 32 (drop 32 (signature_to_bytes (v, r, s))) = uint_bytes 32 (unat s) \<and>
   drop 64 (signature_to_bytes (v, r, s)) = [v] \<and>
   bytes_uint (take 32 (signature_to_bytes (v, r, s))) = unat r \<and>
   bytes_uint (take 32 (drop 32 (signature_to_bytes (v, r, s)))) = unat s"
proof -
  have l: "length (uint_bytes 32 x) = 32" for x by (rule length_uint_bytes)
  have a: "take 32 (signature_to_bytes (v, r, s)) = uint_bytes 32 (unat r)"
    by (simp add: signature_to_bytes_def l del: uint_bytes.simps)
  have b: "take 32 (drop 32 (signature_to_bytes (v, r, s))) = uint_bytes 32 (unat s)"
    by (simp add: signature_to_bytes_def l del: uint_bytes.simps)
  have c: "drop 64 (signature_to_bytes (v, r, s)) = [v]"
    by (simp add: signature_to_bytes_def l del: uint_bytes.simps)
  show ?thesis
    using length_signatures_to_bytes[of sigs] signatures_to_bytes_chunk[of i sigs]
      bytes_uint_word[of r] bytes_uint_word[of s] a b c
    by simp
qed

theorem signatures_to_bytes_layout_witness:
  "length (signatures_to_bytes [(27, 1, 2), (28, 3, 4)]) = 130 \<and>
   take 65 (drop 65 (signatures_to_bytes [(27, 1, 2), (28, 3, 4)])) =
     replicate 31 0 @ [3] @ replicate 31 0 @ [4] @ [28]"
proof -
  have u: "uint_bytes 32 3 = replicate 31 0 @ [3]" "uint_bytes 32 4 = replicate 31 0 @ [4]"
    using uint_bytes_small[of 3 31] uint_bytes_small[of 4 31] by simp_all
  have e: "signature_to_bytes (28, 3, 4) = replicate 31 0 @ [3] @ replicate 31 0 @ [4] @ [28]"
    by (simp add: signature_to_bytes_def u del: uint_bytes.simps)
  show ?thesis
    using signatures_to_bytes_layout[of "[(27, 1, 2), (28, 3, 4)]" 1] e by simp
qed

end
